theory Spec2Isabelle
  imports Complex_Main "HOL-Library.Word"
begin

section \<open>Exporting a coloured scene point cloud (export\_pointclouds\_as\_obj.py)\<close>

text \<open>
  A shallow embedding of \<^verbatim>\<open>export_scene_pointcloud\<close> and
  \<^verbatim>\<open>pointcloud_color_from_image\<close>. Python floats (numpy float64) are
  idealised as \<^typ>\<open>real\<close>; the uint8 channels of a decoded image are
  \<^typ>\<open>8 word\<close>. Every exception the two functions can raise is a value of
  \<open>error\<close>; a scene traversal that never ends is the value \<open>None\<close>.
  Messages printed to stdout under \<^verbatim>\<open>verbose\<close> are not part of the model.
\<close>

subsection \<open>Errors\<close>

datatype error =
    AssertionError string
  | KeyError string
  | NameError string
  | FileNotFoundError string
  | IndexError
  | ValueError

definition bindE :: "error + 'a \<Rightarrow> ('a \<Rightarrow> error + 'b) \<Rightarrow> error + 'b" where
  "bindE m f = (case m of Inl e \<Rightarrow> Inl e | Inr x \<Rightarrow> f x)"

fun mapE :: "('a \<Rightarrow> error + 'b) \<Rightarrow> 'a list \<Rightarrow> error + 'b list" where
  "mapE f [] = Inr []"
| "mapE f (x # xs) = bindE (f x) (\<lambda>y. bindE (mapE f xs) (\<lambda>ys. Inr (y # ys)))"

subsection \<open>Vectors, matrices and quaternions\<close>

type_synonym vec3 = "real \<times> real \<times> real"
type_synonym mat3 = "vec3 \<times> vec3 \<times> vec3"
type_synonym quaternion = "real \<times> real \<times> real \<times> real"

fun dot3 :: "vec3 \<Rightarrow> vec3 \<Rightarrow> real" where
  "dot3 (a, b, c) (x, y, z) = a * x + b * y + c * z"

fun mat_vec :: "mat3 \<Rightarrow> vec3 \<Rightarrow> vec3" where
  "mat_vec (r1, r2, r3) p = (dot3 r1 p, dot3 r2 p, dot3 r3 p)"

text \<open>\<^verbatim>\<open>M.T\<close> of a 3x3 array given by its rows.\<close>

fun transpose3 :: "mat3 \<Rightarrow> mat3" where
  "transpose3 ((a, b, c), (d, e, f), (g, h, i)) = ((a, d, g), (b, e, h), (c, f, i))"

fun vadd :: "vec3 \<Rightarrow> vec3 \<Rightarrow> vec3" where
  "vadd (a, b, c) (x, y, z) = (a + x, b + y, c + z)"

fun vneg :: "vec3 \<Rightarrow> vec3" where
  "vneg (a, b, c) = (- a, - b, - c)"

text \<open>
  \<^verbatim>\<open>Quaternion(q).rotation_matrix\<close> of the pyquaternion library, for a
  scalar-first quaternion: the quaternion is normalised (left as it is when its norm is
  zero) and the rotation matrix of the unit quaternion is returned. Over the reals the
  entries of the normalised quaternion's matrix are the products below divided by the
  sum of squares, so no square root is needed; for the zero quaternion the library
  returns the zero matrix, as \<open>0 / 0 = 0\<close> does here.
\<close>

fun rotation_matrix :: "quaternion \<Rightarrow> mat3" where
  "rotation_matrix (w, x, y, z) =
     (let s = w * w + x * x + y * y + z * z in
      (((w * w + x * x - y * y - z * z) / s, 2 * (x * y - w * z) / s, 2 * (x * z + w * y) / s),
       (2 * (x * y + w * z) / s, (w * w - x * x + y * y - z * z) / s, 2 * (y * z - w * x) / s),
       (2 * (x * z - w * y) / s, 2 * (y * z + w * x) / s, (w * w - x * x - y * y + z * z) / s)))"

subsection \<open>The record store\<close>

record scene_rec =
  first_sample_token :: string

record sample_rec =
  data :: "string \<rightharpoonup> string"

record sample_data_rec =
  token :: string
  filename :: string
  sample_token :: string
  calibrated_sensor_token :: string
  ego_pose_token :: string
  sd_next :: string

record calibrated_sensor_rec =
  cs_rotation :: quaternion
  cs_translation :: vec3
  camera_intrinsic :: "mat3 option"

record ego_pose_rec =
  ep_rotation :: quaternion
  ep_translation :: vec3

record nuscenes =
  dataroot :: string
  scene_table :: "string \<rightharpoonup> scene_rec"
  sample_table :: "string \<rightharpoonup> sample_rec"
  sample_data_table :: "string \<rightharpoonup> sample_data_rec"
  calibrated_sensor_table :: "string \<rightharpoonup> calibrated_sensor_rec"
  ego_pose_table :: "string \<rightharpoonup> ego_pose_rec"

record explorer =
  nusc :: nuscenes

text \<open>
  Modelled from the spec: \<^verbatim>\<open>NuScenes.get(table, token)\<close> is not in the source
  file. The spec (section 6) gives it as \<open>get(table, token) -> record\<close> over the
  tables scene, sample, sample\_data, calibrated\_sensor and ego\_pose, with a
  missing-record error for a token the table does not have. One lookup per table, since
  the tables hold records of different shapes.
\<close>

definition lookup :: "(string \<rightharpoonup> 'a) \<Rightarrow> string \<Rightarrow> error + 'a" where
  "lookup tbl k = (case tbl k of None \<Rightarrow> Inl (KeyError k) | Some r \<Rightarrow> Inr r)"

definition get_scene :: "nuscenes \<Rightarrow> string \<Rightarrow> error + scene_rec" where
  "get_scene n tok = lookup (scene_table n) tok"

definition get_sample :: "nuscenes \<Rightarrow> string \<Rightarrow> error + sample_rec" where
  "get_sample n tok = lookup (sample_table n) tok"

definition get_sample_data :: "nuscenes \<Rightarrow> string \<Rightarrow> error + sample_data_rec" where
  "get_sample_data n tok = lookup (sample_data_table n) tok"

definition get_calibrated_sensor :: "nuscenes \<Rightarrow> string \<Rightarrow> error + calibrated_sensor_rec" where
  "get_calibrated_sensor n tok = lookup (calibrated_sensor_table n) tok"

definition get_ego_pose :: "nuscenes \<Rightarrow> string \<Rightarrow> error + ego_pose_rec" where
  "get_ego_pose n tok = lookup (ego_pose_table n) tok"

subsection \<open>Files, point clouds and images\<close>

text \<open>\<^verbatim>\<open>os.path.join\<close> of two components (posixpath).\<close>

definition osp_join :: "string \<Rightarrow> string \<Rightarrow> string" where
  "osp_join a b =
     (if b \<noteq> [] \<and> hd b = CHR ''/'' then b
      else if a = [] \<or> last a = CHR ''/'' then a @ b
      else a @ ''/'' @ b)"

text \<open>
  Modelled from the spec: the class \<^verbatim>\<open>PointCloud\<close> (module
  \<^verbatim>\<open>nuscenes_utils.data_classes\<close>) is not in the source file. The spec
  (section 3) gives it as an ordered sequence of 3-D points plus optional auxiliary
  channels, with in-place application of a rigid transform to every point; section 4.1
  gives the transform as \<open>R \<cdot> p + t\<close>. A cloud is the list of its columns;
  its methods \<^verbatim>\<open>rotate\<close> and \<^verbatim>\<open>translate\<close>, here \<open>pc_rotate\<close> and
  \<open>pc_translate\<close>, change the position block only.
\<close>

record lpoint =
  xyz :: vec3
  aux :: "real list"

type_synonym pointcloud = "lpoint list"

definition pc_rotate :: "mat3 \<Rightarrow> pointcloud \<Rightarrow> pointcloud" where
  "pc_rotate R pc = map (\<lambda>p. p\<lparr>xyz := mat_vec R (xyz p)\<rparr>) pc"

definition pc_translate :: "vec3 \<Rightarrow> pointcloud \<Rightarrow> pointcloud" where
  "pc_translate t pc = map (\<lambda>p. p\<lparr>xyz := vadd (xyz p) t\<rparr>) pc"

text \<open>
  A decoded image: \<^verbatim>\<open>im.size\<close> is (width, height) and
  \<^verbatim>\<open>np.array(im)\<close> has shape (height, width, 3) with uint8 entries;
  \<open>pix im row col\<close> is the RGB triple at that row and column.
\<close>

type_synonym rgb = "8 word \<times> 8 word \<times> 8 word"

record image =
  size_w :: nat
  size_h :: nat
  pix :: "nat \<Rightarrow> nat \<Rightarrow> rgb"

text \<open>
  The files under the data root: \<^verbatim>\<open>PointCloud.from_file\<close> and
  \<^verbatim>\<open>Image.open\<close> raise when the path names no file.
\<close>

record files =
  pcd_files :: "string \<rightharpoonup> pointcloud"
  image_files :: "string \<rightharpoonup> image"

definition from_file :: "files \<Rightarrow> string \<Rightarrow> error + pointcloud" where
  "from_file fs path =
     (case pcd_files fs path of None \<Rightarrow> Inl (FileNotFoundError path) | Some pc \<Rightarrow> Inr pc)"

definition image_open :: "files \<Rightarrow> string \<Rightarrow> error + image" where
  "image_open fs path =
     (case image_files fs path of None \<Rightarrow> Inl (FileNotFoundError path) | Some im \<Rightarrow> Inr im)"

subsection \<open>Projection, mask and colour sampling\<close>

text \<open>
  Modelled from the spec: \<^verbatim>\<open>view_points\<close> (module
  \<^verbatim>\<open>nuscenes_utils.geometry_utils\<close>) is not in the source file. The spec
  (section 4.3) gives it as \<open>p' = K \<cdot> p\<close> followed, when \<open>normalize\<close> is set,
  by the division of the first two rows by the third, which leaves the third row as 1.
  Where the third row is zero numpy yields an infinity or a NaN, which fail one of the
  comparisons of the mask; here the quotient is 0, which fails \<open>u > 1\<close> as well.
\<close>

definition view_point :: "mat3 \<Rightarrow> bool \<Rightarrow> vec3 \<Rightarrow> vec3" where
  "view_point K normalise p =
     (case mat_vec K p of (a, b, c) \<Rightarrow> if normalise then (a / c, b / c, 1) else (a, b, c))"

definition view_points :: "vec3 list \<Rightarrow> mat3 \<Rightarrow> bool \<Rightarrow> vec3 list" where
  "view_points pts K normalise = map (view_point K normalise) pts"

text \<open>Boolean-mask indexing \<^verbatim>\<open>a[:, mask]\<close> on the columns of an array.\<close>

definition select :: "'a list \<Rightarrow> bool list \<Rightarrow> 'a list" where
  "select xs msk = map fst (filter snd (zip xs msk))"

text \<open>\<^verbatim>\<open>ndarray.round()\<close>: to the nearest integer, a tie to the even one.\<close>

definition np_round :: "real \<Rightarrow> int" where
  "np_round x =
     (let f = \<lfloor>x\<rfloor>; d = x - of_int f in
      if d < 1 / 2 then f else if 1 / 2 < d then f + 1 else if even f then f else f + 1)"

text \<open>
  \<^verbatim>\<open>astype(np.int32)\<close> on an integral float: the value itself when it fits 32
  bits; outside that range the conversion gives the least 32-bit integer.
\<close>

definition astype_int32 :: "int \<Rightarrow> int" where
  "astype_int32 n = (if - (2 ^ 31) \<le> n \<and> n < 2 ^ 31 then n else - (2 ^ 31))"

text \<open>
  \<^verbatim>\<open>im_data[row, col, :]\<close>: numpy counts a negative index from the end and
  raises IndexError outside the array.
\<close>

definition np_index :: "nat \<Rightarrow> int \<Rightarrow> error + nat" where
  "np_index n i =
     (if 0 \<le> i \<and> i < int n then Inr (nat i)
      else if - int n \<le> i \<and> i < 0 then Inr (nat (int n + i))
      else Inl IndexError)"

definition im_data :: "image \<Rightarrow> int \<Rightarrow> int \<Rightarrow> error + rgb" where
  "im_data im row col =
     bindE (np_index (size_h im) row) (\<lambda>r.
     bindE (np_index (size_w im) col) (\<lambda>c. Inr (pix im r c)))"

type_synonym color = "real \<times> real \<times> real"

fun rgb_to_float :: "rgb \<Rightarrow> color" where
  "rgb_to_float (r, g, b) = (real (unat r), real (unat g), real (unat b))"

text \<open>
  The colour of the pixel nearest to a projected point, in the words of the spec
  (section 4.4): round \<open>(u, v)\<close> to the nearest integer pixel coordinate and read that
  pixel's RGB.
\<close>

definition nearest_pixel :: "image \<Rightarrow> vec3 \<Rightarrow> color" where
  "nearest_pixel im p =
     (case p of (u, v, w) \<Rightarrow> rgb_to_float (pix im (nat (np_round v)) (nat (np_round u))))"

text \<open>The body of the sampling loop for one projected point \<open>p\<close>.\<close>

fun pick_color :: "image \<Rightarrow> vec3 \<Rightarrow> error + color" where
  "pick_color im (u, v, w) =
     (let point0 = astype_int32 (np_round u); point1 = astype_int32 (np_round v) in
      bindE (im_data im point1 point0) (\<lambda>px. Inr (rgb_to_float px)))"

fun in_picture :: "image \<Rightarrow> real \<Rightarrow> vec3 \<Rightarrow> bool" where
  "in_picture im depth (u, v, w) =
     (depth > 0 \<and> u > 1 \<and> u < real_of_int (int (size_w im) - 1) \<and> v > 1
        \<and> v < real_of_int (int (size_h im) - 1))"

text \<open>
  Steps one to four of \<^verbatim>\<open>pointcloud_color_from_image\<close>: the cloud of the
  point sensor taken into the frame of the camera.
\<close>

definition to_camera_frame ::
  "calibrated_sensor_rec \<Rightarrow> ego_pose_rec \<Rightarrow> ego_pose_rec \<Rightarrow> calibrated_sensor_rec \<Rightarrow>
   pointcloud \<Rightarrow> pointcloud" where
  "to_camera_frame cs_src ego_src ego_dst cs_dst pc0 =
     (let pc = pc_rotate (rotation_matrix (cs_rotation cs_src)) pc0;
          pc = pc_translate (cs_translation cs_src) pc;
          pc = pc_rotate (rotation_matrix (ep_rotation ego_src)) pc;
          pc = pc_translate (ep_translation ego_src) pc;
          pc = pc_translate (vneg (ep_translation ego_dst)) pc;
          pc = pc_rotate (transpose3 (rotation_matrix (ep_rotation ego_dst))) pc;
          pc = pc_translate (vneg (cs_translation cs_dst)) pc;
          pc = pc_rotate (transpose3 (rotation_matrix (cs_rotation cs_dst))) pc
      in pc)"

definition intrinsic :: "calibrated_sensor_rec \<Rightarrow> error + mat3" where
  "intrinsic cs =
     (case camera_intrinsic cs of None \<Rightarrow> Inl (KeyError ''camera_intrinsic'') | Some K \<Rightarrow> Inr K)"

text \<open>
  The computation of \<^verbatim>\<open>pointcloud_color_from_image\<close> on the records and files
  it has fetched: the four transforms, the picture, the mask and the colours.
\<close>

definition color_points ::
  "image \<Rightarrow> calibrated_sensor_rec \<Rightarrow> ego_pose_rec \<Rightarrow> ego_pose_rec \<Rightarrow> calibrated_sensor_rec \<Rightarrow>
   pointcloud \<Rightarrow> error + (color list \<times> bool list)" where
  "color_points im cs_src ego_src ego_dst cs_dst pc0 =
     (let pc = to_camera_frame cs_src ego_src ego_dst cs_dst pc0;
          depths = map (\<lambda>p. snd (snd (xyz p))) pc
      in
      bindE (intrinsic cs_dst) (\<lambda>K.
        let points = view_points (map xyz pc) K True;
            msk = map (\<lambda>(d, p). in_picture im d p) (zip depths points);
            points = select points msk
        in
      bindE (mapE (pick_color im) points) (\<lambda>coloring. Inr (coloring, msk))))"

text \<open>
  The records and files are fetched in the order of the source; the transforms between
  the fetches raise nothing, so they are gathered in \<open>color_points\<close>.
\<close>

definition pointcloud_color_from_image ::
  "nuscenes \<Rightarrow> files \<Rightarrow> string \<Rightarrow> string \<Rightarrow> error + (color list \<times> bool list)" where
  "pointcloud_color_from_image n fs pointsensor_token camera_token =
     bindE (get_sample_data n camera_token) (\<lambda>cam.
     bindE (get_sample_data n pointsensor_token) (\<lambda>pointsensor.
     bindE (from_file fs (osp_join (dataroot n) (filename pointsensor))) (\<lambda>pc0.
     bindE (image_open fs (osp_join (dataroot n) (filename cam))) (\<lambda>im.
     bindE (get_calibrated_sensor n (calibrated_sensor_token pointsensor)) (\<lambda>cs_src.
     bindE (get_ego_pose n (ego_pose_token pointsensor)) (\<lambda>ego_src.
     bindE (get_ego_pose n (ego_pose_token cam)) (\<lambda>ego_dst.
     bindE (get_calibrated_sensor n (calibrated_sensor_token cam)) (\<lambda>cs_dst.
       color_points im cs_src ego_src ego_dst cs_dst pc0))))))))"

subsection \<open>Colours of one frame\<close>

definition valid_channels :: "string list" where
  "valid_channels = [''LIDAR_TOP'', ''RADAR_FRONT'', ''RADAR_FRONT_RIGHT'', ''RADAR_FRONT_LEFT'',
     ''RADAR_BACK_LEFT'', ''RADAR_BACK_RIGHT'']"

definition camera_channels :: "string list" where
  "camera_channels = [''CAM_FRONT_LEFT'', ''CAM_FRONT'', ''CAM_FRONT_RIGHT'',
     ''CAM_BACK_LEFT'', ''CAM_BACK'', ''CAM_BACK_RIGHT'']"

text \<open>A column of \<^verbatim>\<open>np.ones((3, n)) * -1\<close>.\<close>

definition no_color :: color where
  "no_color = (- 1, - 1, - 1)"

text \<open>
  \<^verbatim>\<open>coloring[:, cam_mask] = cam_coloring\<close>. numpy raises IndexError when the
  boolean index has not the length of the axis, writes the columns of the value in order
  into the selected columns when their numbers agree, repeats a single column, and raises
  ValueError otherwise.
\<close>

fun scatter :: "'a list \<Rightarrow> bool list \<Rightarrow> 'a list \<Rightarrow> 'a list" where
  "scatter (c # cs) (True # ms) (v # vs) = v # scatter cs ms vs"
| "scatter (c # cs) (False # ms) vs = c # scatter cs ms vs"
| "scatter cs ms vs = cs"

definition assign_masked :: "'a list \<Rightarrow> bool list \<Rightarrow> 'a list \<Rightarrow> error + 'a list" where
  "assign_masked coloring cam_mask cam_coloring =
     (if length cam_mask \<noteq> length coloring then Inl IndexError
      else if length cam_coloring = length (filter (\<lambda>b. b) cam_mask)
        then Inr (scatter coloring cam_mask cam_coloring)
      else if length cam_coloring = 1
        then Inr (map (\<lambda>(c, m). if m then hd cam_coloring else c) (zip coloring cam_mask))
      else Inl ValueError)"

text \<open>
  The name \<^verbatim>\<open>nusc\<close> in the body of \<^verbatim>\<open>export_scene_pointcloud\<close> is
  neither a parameter nor a local: it is read from the module's globals when the call
  is evaluated. The global is \<open>None\<close> when the name is unbound.
\<close>

definition global_nusc :: "nuscenes option \<Rightarrow> error + nuscenes" where
  "global_nusc g = (case g of None \<Rightarrow> Inl (NameError ''nusc'') | Some n \<Rightarrow> Inr n)"

text \<open>The first two lines of the body of the loop over the cameras.\<close>

definition camera_view ::
  "nuscenes option \<Rightarrow> files \<Rightarrow> sample_rec \<Rightarrow> string \<Rightarrow> string \<Rightarrow>
   error + (color list \<times> bool list)" where
  "camera_view g fs sample lidar_token channel =
     bindE (lookup (data sample) channel) (\<lambda>camera_token.
     bindE (global_nusc g) (\<lambda>n.
       pointcloud_color_from_image n fs lidar_token camera_token))"

text \<open>
  What one camera says about point \<open>i\<close> of the cloud: the colour it returned for the
  point when its mask selects the point, nothing otherwise. The returned colours are
  those of the selected points in order, so the colour of point \<open>i\<close> stands at the
  number of selected points before it.
\<close>

definition color_in_view :: "error + (color list \<times> bool list) \<Rightarrow> nat \<Rightarrow> color option" where
  "color_in_view r i =
     (case r of
        Inl e \<Rightarrow> None
      | Inr (cam_coloring, cam_mask) \<Rightarrow>
          if i < length cam_mask \<and> cam_mask ! i
          then Some (cam_coloring ! length (filter (\<lambda>b. b) (take i cam_mask)))
          else None)"

fun color_from_cameras ::
  "nuscenes option \<Rightarrow> files \<Rightarrow> sample_rec \<Rightarrow> string \<Rightarrow> string list \<Rightarrow> color list \<Rightarrow>
   error + color list" where
  "color_from_cameras g fs sample lidar_token [] coloring = Inr coloring"
| "color_from_cameras g fs sample lidar_token (channel # rest) coloring =
     bindE (camera_view g fs sample lidar_token channel) (\<lambda>(cam_coloring, cam_mask).
     bindE (assign_masked coloring cam_mask cam_coloring) (\<lambda>coloring'.
       color_from_cameras g fs sample lidar_token rest coloring'))"

subsection \<open>Writing the vertices\<close>

text \<open>
  \<^verbatim>\<open>'{:.8f}'.format(x)\<close>: the decimal expansion of \<open>x\<close> rounded to \<open>d\<close>
  places, a tie to the even digit, with a minus sign for a negative \<open>x\<close>.
\<close>

definition digit_char :: "nat \<Rightarrow> char" where
  "digit_char n = ''0123456789'' ! n"

fun str_nat :: "nat \<Rightarrow> string" where
  "str_nat n = (if n < 10 then [digit_char n] else str_nat (n div 10) @ [digit_char (n mod 10)])"

primrec frac_digits :: "nat \<Rightarrow> nat \<Rightarrow> string" where
  "frac_digits 0 n = []"
| "frac_digits (Suc d) n = frac_digits d (n div 10) @ [digit_char (n mod 10)]"

definition format_f :: "nat \<Rightarrow> real \<Rightarrow> string" where
  "format_f d x =
     (let n = nat (np_round (\<bar>x\<bar> * 10 ^ d)) in
      (if x < 0 then ''-'' else []) @ str_nat (n div 10 ^ d) @
      (if d = 0 then [] else ''.'' @ frac_digits d (n mod 10 ^ d)))"

definition newline :: string where
  "newline = [CHR 0x0A]"

fun vertex_line :: "vec3 \<Rightarrow> color \<Rightarrow> string" where
  "vertex_line (x, y, z) (r, g, b) =
     ''v '' @ format_f 8 x @ '' '' @ format_f 8 y @ '' '' @ format_f 8 z @ '' '' @
     format_f 4 (r / 255) @ '' '' @ format_f 4 (g / 255) @ '' '' @ format_f 4 (b / 255) @ newline"

text \<open>\<^verbatim>\<open>(c == -1).any()\<close>\<close>

fun any_minus_one :: "color \<Rightarrow> bool" where
  "any_minus_one (r, g, b) = (r = - 1 \<or> g = - 1 \<or> b = - 1)"

text \<open>The loop that writes the points of one frame; the result is the text written.\<close>

fun write_points :: "(lpoint \<times> color) list \<Rightarrow> string" where
  "write_points [] = []"
| "write_points ((v, c) # rest) =
     (if any_minus_one c then [] else vertex_line (xyz v) c) @ write_points rest"

subsection \<open>One frame\<close>

fun dist_origin :: "vec3 \<Rightarrow> real" where
  "dist_origin (x, y, z) = sqrt (x\<^sup>2 + y\<^sup>2 + z\<^sup>2)"

definition process_frame ::
  "explorer \<Rightarrow> nuscenes option \<Rightarrow> files \<Rightarrow> real \<Rightarrow> real \<Rightarrow> sample_data_rec \<Rightarrow> error + string" where
  "process_frame ex g fs min_dist max_dist sd_rec =
     bindE (get_sample (nusc ex) (sample_token sd_rec)) (\<lambda>sample.
       let lidar_token = token sd_rec in
     bindE (get_sample_data (nusc ex) lidar_token) (\<lambda>lidar_rec.
     bindE (from_file fs (osp_join (dataroot (nusc ex)) (filename lidar_rec))) (\<lambda>pc.
     bindE (color_from_cameras g fs sample lidar_token camera_channels
              (replicate (length pc) no_color)) (\<lambda>coloring.
     bindE (get_calibrated_sensor (nusc ex) (calibrated_sensor_token lidar_rec)) (\<lambda>cs_record.
       let pc = pc_rotate (rotation_matrix (cs_rotation cs_record)) pc;
           pc = pc_translate (cs_translation cs_record) pc;
           dists_origin = map (\<lambda>p. dist_origin (xyz p)) pc;
           keep = map (\<lambda>d. min_dist \<le> d \<and> d \<le> max_dist) dists_origin;
           pc = select pc keep;
           coloring = select coloring keep
       in
     bindE (get_ego_pose (nusc ex) (ego_pose_token lidar_rec)) (\<lambda>poserecord.
       let pc = pc_rotate (rotation_matrix (ep_rotation poserecord)) pc;
           pc = pc_translate (ep_translation poserecord) pc
       in Inr (write_points (zip pc coloring))))))))"

subsection \<open>The scene\<close>

text \<open>
  What a call leaves behind: the exception it raised, if any, the text of the file at
  \<^verbatim>\<open>out_path\<close> (\<open>None\<close> when the file was never opened) and the final value
  of \<^verbatim>\<open>frame_ind\<close>. The output path is taken to name none of the data files.
\<close>

record outcome =
  raised :: "error option"
  out_file :: "string option"
  frame_ind :: nat

text \<open>
  The \<^verbatim>\<open>while has_more_frames\<close> loop. Nothing bounds the number of its
  iterations when the \<^verbatim>\<open>next\<close> links run in a cycle, so the loop is a partial
  function: \<open>None\<close> is a run that never returns.
\<close>

partial_function (option) frame_loop ::
  "explorer \<Rightarrow> nuscenes option \<Rightarrow> files \<Rightarrow> real \<Rightarrow> real \<Rightarrow> sample_data_rec \<Rightarrow> string \<Rightarrow> nat \<Rightarrow>
   outcome option" where
  "frame_loop ex g fs min_dist max_dist sd_rec f n =
     (case process_frame ex g fs min_dist max_dist sd_rec of
        Inl e \<Rightarrow> Some \<lparr>raised = Some e, out_file = Some f, frame_ind = n\<rparr>
      | Inr written \<Rightarrow>
          if \<not> sd_next sd_rec = [] then
            (case get_sample_data (nusc ex) (sd_next sd_rec) of
               Inl e \<Rightarrow> Some \<lparr>raised = Some e, out_file = Some (f @ written), frame_ind = n\<rparr>
             | Inr sd_rec' \<Rightarrow> frame_loop ex g fs min_dist max_dist sd_rec' (f @ written) (n + 1))
          else Some \<lparr>raised = None, out_file = Some (f @ written), frame_ind = n + 1\<rparr>)"

definition default_channel :: string where
  "default_channel = ''LIDAR_TOP''"

definition default_min_dist :: real where
  "default_min_dist = 3"

definition default_max_dist :: real where
  "default_max_dist = 30"

text \<open>The records fetched before the file is opened.\<close>

definition first_sd_rec :: "explorer \<Rightarrow> string \<Rightarrow> string \<Rightarrow> error + sample_data_rec" where
  "first_sd_rec ex scene_token channel =
     bindE (get_scene (nusc ex) scene_token) (\<lambda>scene.
     bindE (get_sample (nusc ex) (first_sample_token scene)) (\<lambda>start_sample_rec.
     bindE (lookup (data start_sample_rec) channel) (\<lambda>tok.
       get_sample_data (nusc ex) tok)))"

definition export_scene_pointcloud ::
  "explorer \<Rightarrow> nuscenes option \<Rightarrow> files \<Rightarrow> string \<Rightarrow> string \<Rightarrow> real \<Rightarrow> real \<Rightarrow> outcome option" where
  "export_scene_pointcloud ex g fs scene_token channel min_dist max_dist =
     (if channel \<notin> set valid_channels
      then Some \<lparr>raised = Some (AssertionError (''Input channel '' @ channel @ '' not valid.'')),
                 out_file = None, frame_ind = 0\<rparr>
      else
        (case first_sd_rec ex scene_token channel of
           Inl e \<Rightarrow> Some \<lparr>raised = Some e, out_file = None, frame_ind = 0\<rparr>
         | Inr sd_rec \<Rightarrow>
             frame_loop ex g fs min_dist max_dist sd_rec (''OBJ File:'' @ newline) 0))"

subsection \<open>Chains of records\<close>

text \<open>
  The records \<open>rs\<close> are those reached from \<open>r\<close> by following non-empty
  \<^verbatim>\<open>next\<close> links through the sample\_data table, in order.
\<close>

fun linked :: "nuscenes \<Rightarrow> sample_data_rec \<Rightarrow> sample_data_rec list \<Rightarrow> bool" where
  "linked n r [] = True"
| "linked n r (r' # rs) =
     (sd_next r \<noteq> [] \<and> get_sample_data n (sd_next r) = Inr r' \<and> linked n r' rs)"

text \<open>The text one frame adds to the file, empty when the frame raises.\<close>

definition frame_text ::
  "explorer \<Rightarrow> nuscenes option \<Rightarrow> files \<Rightarrow> real \<Rightarrow> real \<Rightarrow> sample_data_rec \<Rightarrow> string" where
  "frame_text ex g fs min_dist max_dist sd_rec =
     (case process_frame ex g fs min_dist max_dist sd_rec of Inl e \<Rightarrow> [] | Inr written \<Rightarrow> written)"

definition is_assertion :: "error \<Rightarrow> bool" where
  "is_assertion e = (case e of AssertionError m \<Rightarrow> True | _ \<Rightarrow> False)"

subsection \<open>The points of a frame, as the spec gives them\<close>

text \<open>
  The spec (section 4.1) applies a pose to a point as \<open>R \<cdot> p + t\<close>: the calibration of
  the sensor takes a point to the ego frame, the ego pose takes it on to the global frame.
\<close>

definition to_ego :: "calibrated_sensor_rec \<Rightarrow> vec3 \<Rightarrow> vec3" where
  "to_ego cs v = vadd (mat_vec (rotation_matrix (cs_rotation cs)) v) (cs_translation cs)"

definition to_global :: "ego_pose_rec \<Rightarrow> vec3 \<Rightarrow> vec3" where
  "to_global pose v = vadd (mat_vec (rotation_matrix (ep_rotation pose)) v) (ep_translation pose)"

text \<open>
  The points that a frame hands to the writer, in the words of the spec (section 4.5,
  steps 1 to 7), point by point: the cloud and its colours from the six cameras; a point
  is kept when its distance from the origin of the ego frame lies between
  \<open>min_dist\<close> and \<open>max_dist\<close> and its colour is not invalid; a kept point is given
  at its position in the global frame, with its colour, in the order of the cloud.
\<close>

definition emitted_points ::
  "explorer \<Rightarrow> nuscenes option \<Rightarrow> files \<Rightarrow> real \<Rightarrow> real \<Rightarrow> sample_data_rec \<Rightarrow>
   error + (vec3 \<times> color) list" where
  "emitted_points ex g fs min_dist max_dist sd_rec =
     bindE (get_sample (nusc ex) (sample_token sd_rec)) (\<lambda>sample.
     bindE (get_sample_data (nusc ex) (token sd_rec)) (\<lambda>lidar_rec.
     bindE (from_file fs (osp_join (dataroot (nusc ex)) (filename lidar_rec))) (\<lambda>pc.
     bindE (color_from_cameras g fs sample (token sd_rec) camera_channels
              (replicate (length pc) no_color)) (\<lambda>coloring.
     bindE (get_calibrated_sensor (nusc ex) (calibrated_sensor_token lidar_rec)) (\<lambda>cs_record.
     bindE (get_ego_pose (nusc ex) (ego_pose_token lidar_rec)) (\<lambda>poserecord.
       Inr (map (\<lambda>(p, c). (to_global poserecord (to_ego cs_record (xyz p)), c))
              (filter (\<lambda>(p, c). min_dist \<le> dist_origin (to_ego cs_record (xyz p)) \<and>
                                dist_origin (to_ego cs_record (xyz p)) \<le> max_dist \<and>
                                \<not> any_minus_one c)
                 (zip pc coloring)))))))))"

subsection \<open>A small scene\<close>

text \<open>
  One lidar sweep of three points seen by six cameras that share the calibration of the
  lidar: the front and the front-right camera give a 4 by 4 image of one colour each, the
  four others a 2 by 2 image, in which the margin leaves no pixel. The ego pose is a
  translation by (100, 200, 0). The channel RADAR\_FRONT starts a chain of three sweeps
  without points, RADAR\_FRONT\_LEFT a sweep whose link names no record. The data roots
  \<open>alt\<close> and \<open>off\<close> are copies of the data: under \<open>alt\<close> the image of
  the front-right camera has another colour, under \<open>off\<close> the sweep has other points.
\<close>

definition demo_cloud :: pointcloud where
  "demo_cloud = [\<lparr>xyz = (10, 10, 5), aux = [1]\<rparr>, \<lparr>xyz = (0, 0, 5), aux = [1]\<rparr>,
     \<lparr>xyz = (1, 1, 1 / 2), aux = [1]\<rparr>]"

definition off_cloud :: pointcloud where
  "off_cloud = [\<lparr>xyz = (0, 0, 5), aux = [1]\<rparr>, \<lparr>xyz = (0, 0, 5), aux = [1]\<rparr>,
     \<lparr>xyz = (0, 0, 1), aux = [1]\<rparr>]"

definition plain_image :: "nat \<Rightarrow> rgb \<Rightarrow> image" where
  "plain_image n c = \<lparr>size_w = n, size_h = n, pix = (\<lambda>row col. c)\<rparr>"

definition demo_files :: files where
  "demo_files = \<lparr>
     pcd_files = [''root/cloud.bin'' \<mapsto> demo_cloud, ''root/empty.bin'' \<mapsto> [],
                  ''alt/cloud.bin'' \<mapsto> demo_cloud, ''alt/empty.bin'' \<mapsto> [],
                  ''off/cloud.bin'' \<mapsto> off_cloud],
     image_files = [''root/front.jpg'' \<mapsto> plain_image 4 (10, 20, 30),
                    ''root/right.jpg'' \<mapsto> plain_image 4 (128, 64, 32),
                    ''root/blind.jpg'' \<mapsto> plain_image 2 (0, 0, 0),
                    ''alt/front.jpg'' \<mapsto> plain_image 4 (10, 20, 30),
                    ''alt/right.jpg'' \<mapsto> plain_image 4 (255, 0, 0),
                    ''alt/blind.jpg'' \<mapsto> plain_image 2 (0, 0, 0)]\<rparr>"

definition demo_sd :: "string \<Rightarrow> string \<Rightarrow> string \<Rightarrow> sample_data_rec" where
  "demo_sd tok file nxt = \<lparr>token = tok, filename = file, sample_token = ''sample0'',
     calibrated_sensor_token = ''cs'', ego_pose_token = ''ego'', sd_next = nxt\<rparr>"

definition demo_sample :: sample_rec where
  "demo_sample = \<lparr>data = [''LIDAR_TOP'' \<mapsto> ''lidar0'', ''RADAR_FRONT'' \<mapsto> ''a'',
     ''RADAR_FRONT_LEFT'' \<mapsto> ''x'',
     ''CAM_FRONT_LEFT'' \<mapsto> ''blind'', ''CAM_FRONT'' \<mapsto> ''front'',
     ''CAM_FRONT_RIGHT'' \<mapsto> ''right'', ''CAM_BACK_LEFT'' \<mapsto> ''blind'',
     ''CAM_BACK'' \<mapsto> ''blind'', ''CAM_BACK_RIGHT'' \<mapsto> ''blind'']\<rparr>"

definition demo_nusc :: nuscenes where
  "demo_nusc = \<lparr>
     dataroot = ''root'',
     scene_table = [''scene0'' \<mapsto> \<lparr>first_sample_token = ''sample0''\<rparr>],
     sample_table = [''sample0'' \<mapsto> demo_sample],
     sample_data_table = [''lidar0'' \<mapsto> demo_sd ''lidar0'' ''cloud.bin'' [],
       ''front'' \<mapsto> demo_sd ''front'' ''front.jpg'' [],
       ''right'' \<mapsto> demo_sd ''right'' ''right.jpg'' [],
       ''blind'' \<mapsto> demo_sd ''blind'' ''blind.jpg'' [],
       ''a'' \<mapsto> demo_sd ''a'' ''empty.bin'' ''b'',
       ''b'' \<mapsto> demo_sd ''b'' ''empty.bin'' ''c'',
       ''c'' \<mapsto> demo_sd ''c'' ''empty.bin'' [],
       ''x'' \<mapsto> demo_sd ''x'' ''empty.bin'' ''missing''],
     calibrated_sensor_table = [''cs'' \<mapsto> \<lparr>cs_rotation = (1, 0, 0, 0),
       cs_translation = (0, 0, 0),
       camera_intrinsic = Some ((1, 0, 0), (0, 1, 0), (0, 0, 1))\<rparr>],
     ego_pose_table = [''ego'' \<mapsto> \<lparr>ep_rotation = (1, 0, 0, 0),
       ep_translation = (100, 200, 0)\<rparr>]\<rparr>"

definition alt_nusc :: nuscenes where
  "alt_nusc = demo_nusc\<lparr>dataroot := ''alt''\<rparr>"

definition demo_explorer :: explorer where
  "demo_explorer = \<lparr>nusc = demo_nusc\<rparr>"

definition off_explorer :: explorer where
  "off_explorer = \<lparr>nusc = demo_nusc\<lparr>dataroot := ''off''\<rparr>\<rparr>"


lemma bindE_simps [simp]: "bindE (Inl e) f = Inl e" "bindE (Inr x) f = f x"
  by (simp_all add: bindE_def)

lemma bindE_eq_Inr: "bindE m f = Inr y \<longleftrightarrow> (\<exists>x. m = Inr x \<and> f x = Inr y)"
  by (cases m) auto

lemma bindE_eq_Inl: "bindE m f = Inl e \<longleftrightarrow> m = Inl e \<or> (\<exists>x. m = Inr x \<and> f x = Inl e)"
  by (cases m) auto

lemma mapE_all_Inr: "(\<And>x. x \<in> set xs \<Longrightarrow> f x = Inr (h x)) \<Longrightarrow> mapE f xs = Inr (map h xs)"
  by (induction xs) auto

lemma length_pc_rotate [simp]: "length (pc_rotate R pc) = length pc"
  by (simp add: pc_rotate_def)

lemma length_pc_translate [simp]: "length (pc_translate t pc) = length pc"
  by (simp add: pc_translate_def)

lemma to_camera_frame_map:
  "to_camera_frame cs_src ego_src ego_dst cs_dst pc =
     map (\<lambda>p. p\<lparr>xyz :=
       mat_vec (transpose3 (rotation_matrix (cs_rotation cs_dst)))
         (vadd
           (mat_vec (transpose3 (rotation_matrix (ep_rotation ego_dst)))
             (vadd
               (vadd (mat_vec (rotation_matrix (ep_rotation ego_src))
                  (vadd (mat_vec (rotation_matrix (cs_rotation cs_src)) (xyz p))
                     (cs_translation cs_src)))
                  (ep_translation ego_src))
               (vneg (ep_translation ego_dst))))
           (vneg (cs_translation cs_dst)))\<rparr>) pc"
  by (simp add: to_camera_frame_def pc_rotate_def pc_translate_def Let_def comp_def)

lemma length_to_camera_frame [simp]:
  "length (to_camera_frame cs_src ego_src ego_dst cs_dst pc) = length pc"
  by (simp add: to_camera_frame_map)

lemma np_round_cases: "np_round x = \<lfloor>x\<rfloor> \<or> np_round x = \<lfloor>x\<rfloor> + 1"
  by (simp add: np_round_def Let_def)

lemma np_round_bounds:
  assumes "1 < x" and "x < real_of_int (n - 1)"
  shows "1 \<le> np_round x \<and> np_round x \<le> n - 1"
proof -
  have lo: "1 \<le> \<lfloor>x\<rfloor>" using assms(1) by (simp add: le_floor_iff)
  have hi: "\<lfloor>x\<rfloor> < n - 1" using assms(2) by (simp add: floor_less_iff)
  from np_round_cases [of x] lo hi show ?thesis by auto
qed

lemma select_length: "length ms = length xs \<Longrightarrow> length (select xs ms) = length (filter (\<lambda>b. b) ms)"
proof (induction xs ms rule: list_induct2')
  case (4 x xs m ms)
  then show ?case by (simp add: select_def)
qed (simp_all add: select_def)

lemma scatter_length [simp]: "length (scatter cs ms vs) = length cs"
  by (induction cs ms vs rule: scatter.induct) simp_all

lemma scatter_nth:
  "length ms = length cs \<Longrightarrow> length vs = length (filter (\<lambda>b. b) ms) \<Longrightarrow> i < length cs \<Longrightarrow>
   scatter cs ms vs ! i = (if ms ! i then vs ! length (filter (\<lambda>b. b) (take i ms)) else cs ! i)"
proof (induction cs ms vs arbitrary: i rule: scatter.induct)
  case (1 c cs ms v vs)
  then show ?case by (cases i) simp_all
next
  case (2 c cs ms vs)
  then show ?case by (cases i) simp_all
qed simp_all


lemma zip_map_same: "zip (map f xs) (map h xs) = map (\<lambda>x. (f x, h x)) xs"
  by (induction xs) simp_all

lemma color_points_mask:
  assumes "color_points im cs_src ego_src ego_dst cs_dst pc0 = Inr (coloring, msk)"
    and "camera_intrinsic cs_dst = Some K"
  shows "msk = map (\<lambda>p. in_picture im (snd (snd (xyz p))) (view_point K True (xyz p)))
           (to_camera_frame cs_src ego_src ego_dst cs_dst pc0)"
  using assms
  by (auto simp: color_points_def intrinsic_def Let_def view_points_def bindE_eq_Inr
      zip_map_same comp_def)

lemma pick_color_in_picture:
  assumes "in_picture im d (u, v, w)" and "size_w im \<le> 2 ^ 31" and "size_h im \<le> 2 ^ 31"
  shows "pick_color im (u, v, w) = Inr (nearest_pixel im (u, v, w))"
proof -
  from assms(1) have u: "1 \<le> np_round u \<and> np_round u \<le> int (size_w im) - 1"
    using np_round_bounds [of u "int (size_w im)"] by simp
  from assms(1) have v: "1 \<le> np_round v \<and> np_round v \<le> int (size_h im) - 1"
    using np_round_bounds [of v "int (size_h im)"] by simp
  from assms(2) have "int (size_w im) \<le> 2 ^ 31" by (metis of_nat_le_iff of_nat_numeral of_nat_power)
  with u have au: "astype_int32 (np_round u) = np_round u" by (simp add: astype_int32_def)
  from assms(3) have "int (size_h im) \<le> 2 ^ 31" by (metis of_nat_le_iff of_nat_numeral of_nat_power)
  with v have av: "astype_int32 (np_round v) = np_round v" by (simp add: astype_int32_def)
  show ?thesis using u v
    by (simp add: au av im_data_def np_index_def nearest_pixel_def)
qed

lemma select_map_pred: "select (map f xs) (map P xs) = map f (filter P xs)"
  by (induction xs) (simp_all add: select_def)

lemma color_points_Inr:
  assumes "camera_intrinsic cs_dst = Some K" and "size_w im \<le> 2 ^ 31" and "size_h im \<le> 2 ^ 31"
  shows "color_points im cs_src ego_src ego_dst cs_dst pc0 =
    Inr (map (nearest_pixel im)
          (select (map (\<lambda>p. view_point K True (xyz p))
                     (to_camera_frame cs_src ego_src ego_dst cs_dst pc0))
             (map (\<lambda>p. in_picture im (snd (snd (xyz p))) (view_point K True (xyz p)))
                (to_camera_frame cs_src ego_src ego_dst cs_dst pc0))),
         map (\<lambda>p. in_picture im (snd (snd (xyz p))) (view_point K True (xyz p)))
           (to_camera_frame cs_src ego_src ego_dst cs_dst pc0))"
proof -
  let ?pc = "to_camera_frame cs_src ego_src ego_dst cs_dst pc0"
  let ?P = "\<lambda>p. in_picture im (snd (snd (xyz p))) (view_point K True (xyz p))"
  let ?sel = "select (map (\<lambda>p. view_point K True (xyz p)) ?pc) (map ?P ?pc)"
  have "mapE (pick_color im) ?sel = Inr (map (nearest_pixel im) ?sel)"
  proof (rule mapE_all_Inr)
    fix x assume "x \<in> set ?sel"
    then have "x \<in> set (map (\<lambda>p. view_point K True (xyz p)) (filter ?P ?pc))"
      by (simp add: select_map_pred)
    then obtain y :: lpoint where y: "x = view_point K True (xyz y)" "?P y"
      by auto
    obtain u v w where x: "x = (u, v, w)" by (cases x) auto
    with y have "in_picture im (snd (snd (xyz y))) (u, v, w)" by simp
    from pick_color_in_picture [OF this assms(2,3)] x
    show "pick_color im x = Inr (nearest_pixel im x)" by simp
  qed
  then show ?thesis using assms(1)
    by (simp add: color_points_def intrinsic_def Let_def view_points_def zip_map_same comp_def)
qed

lemma mapE_Inr_set:
  "mapE f xs = Inr ys \<Longrightarrow> length ys = length xs \<and> (\<forall>y \<in> set ys. \<exists>x \<in> set xs. f x = Inr y)"
proof (induction xs arbitrary: ys)
  case Nil
  then show ?case by simp
next
  case (Cons x xs)
  then show ?case by (fastforce simp: bindE_eq_Inr)
qed

lemma pick_color_rgb: "pick_color im p = Inr c \<Longrightarrow> \<exists>px. c = rgb_to_float px"
  by (cases p) (auto simp: Let_def bindE_eq_Inr)

lemma color_points_result:
  assumes "color_points im cs_src ego_src ego_dst cs_dst pc0 = Inr (cc, cm)"
  shows "length cm = length pc0 \<and> length cc = length (filter (\<lambda>b. b) cm)
     \<and> (\<forall>c \<in> set cc. \<exists>px. c = rgb_to_float px)"
proof -
  from assms obtain K pts where
    cm: "cm = map (\<lambda>(d, p). in_picture im d p)
       (zip (map (\<lambda>p. snd (snd (xyz p))) (to_camera_frame cs_src ego_src ego_dst cs_dst pc0)) pts)"
    and pts: "pts = view_points (map xyz (to_camera_frame cs_src ego_src ego_dst cs_dst pc0)) K True"
    and cc: "mapE (pick_color im) (select pts cm) = Inr cc"
    by (auto simp: color_points_def Let_def bindE_eq_Inr)
  have l: "length cm = length pc0" by (simp add: cm pts view_points_def)
  have lp: "length pts = length pc0" by (simp add: pts view_points_def)
  have r: "length cc = length (select pts cm) \<and>
      (\<forall>y \<in> set cc. \<exists>x \<in> set (select pts cm). pick_color im x = Inr y)"
    by (rule mapE_Inr_set [OF cc])
  have valid: "\<forall>c \<in> set cc. \<exists>px. c = rgb_to_float px"
    using r pick_color_rgb by blast
  have "length cc = length (filter (\<lambda>b. b) cm)"
    using r l lp by (simp add: select_length)
  with l valid show ?thesis by simp
qed


lemma pcfi_result:
  assumes "pointcloud_color_from_image n fs ptok ctok = Inr (cc, cm)"
  shows "length cc = length (filter (\<lambda>b. b) cm) \<and> (\<forall>c \<in> set cc. \<exists>px. c = rgb_to_float px)"
proof -
  from assms obtain im cs_src ego_src ego_dst cs_dst pc0 where
    "color_points im cs_src ego_src ego_dst cs_dst pc0 = Inr (cc, cm)"
    by (auto simp: pointcloud_color_from_image_def bindE_eq_Inr)
  from color_points_result [OF this] show ?thesis by simp
qed

lemma camera_view_result:
  assumes "camera_view g fs sample tok ch = Inr (cc, cm)"
  shows "length cc = length (filter (\<lambda>b. b) cm) \<and> (\<forall>c \<in> set cc. \<exists>px. c = rgb_to_float px)"
proof -
  from assms obtain n ctok where "pointcloud_color_from_image n fs tok ctok = Inr (cc, cm)"
    by (auto simp: camera_view_def bindE_eq_Inr)
  from pcfi_result [OF this] show ?thesis .
qed

lemma count_take_less:
  assumes "i < length ms" and "ms ! i"
  shows "length (filter (\<lambda>b. b) (take i ms)) < length (filter (\<lambda>b. b) ms)"
proof -
  have "ms = take i ms @ ms ! i # drop (Suc i) ms"
    using assms(1) by (rule id_take_nth_drop)
  then have "filter (\<lambda>b. b) ms = filter (\<lambda>b. b) (take i ms) @ True # filter (\<lambda>b. b) (drop (Suc i) ms)"
    using assms(2) by (metis (mono_tags, lifting) filter.simps(2) filter_append)
  then show ?thesis by simp
qed

lemma color_in_view_rgb:
  assumes "color_in_view (camera_view g fs sample tok ch) i = Some c"
  shows "\<exists>px. c = rgb_to_float px"
proof -
  from assms obtain cc cm where v: "camera_view g fs sample tok ch = Inr (cc, cm)"
    and i: "i < length cm" "cm ! i" and c: "c = cc ! length (filter (\<lambda>b. b) (take i cm))"
    by (auto simp: color_in_view_def split: sum.splits if_splits)
  from camera_view_result [OF v] have l: "length cc = length (filter (\<lambda>b. b) cm)"
    and valid: "\<forall>c \<in> set cc. \<exists>px. c = rgb_to_float px" by simp_all
  from count_take_less [OF i] l have "c \<in> set cc" by (simp add: c)
  with valid show ?thesis by blast
qed

lemma assign_masked_view:
  assumes v: "camera_view g fs sample tok ch = Inr (cc, cm)"
    and a: "assign_masked col cm cc = Inr col'"
  shows "length col' = length col \<and>
    (\<forall>i < length col. col' ! i =
       (case color_in_view (camera_view g fs sample tok ch) i of None \<Rightarrow> col ! i | Some c \<Rightarrow> c))"
proof -
  from camera_view_result [OF v] have l: "length cc = length (filter (\<lambda>b. b) cm)" by simp
  from a have lm: "length cm = length col" and col': "col' = scatter col cm cc"
    using l by (auto simp: assign_masked_def split: if_splits)
  show ?thesis
    using lm l by (simp add: col' scatter_nth v color_in_view_def)
qed

lemma color_from_cameras_fold:
  "color_from_cameras g fs sample tok chs col0 = Inr col \<Longrightarrow>
   length col = length col0 \<and>
   (\<forall>i < length col0. col ! i =
      foldl (\<lambda>acc ch. case color_in_view (camera_view g fs sample tok ch) i of
                         None \<Rightarrow> acc | Some c \<Rightarrow> c) (col0 ! i) chs)"
proof (induction chs arbitrary: col0)
  case Nil
  then show ?case by simp
next
  case (Cons ch chs)
  from Cons.prems obtain cc cm col1 where v: "camera_view g fs sample tok ch = Inr (cc, cm)"
    and a: "assign_masked col0 cm cc = Inr col1"
    and r: "color_from_cameras g fs sample tok chs col1 = Inr col"
    by (auto simp: bindE_eq_Inr)
  from assign_masked_view [OF v a] Cons.IH [OF r] show ?case by simp
qed

lemma fold_views_none:
  "(\<forall>ch \<in> set chs. view ch = None) \<Longrightarrow>
   foldl (\<lambda>acc ch. case view ch of None \<Rightarrow> acc | Some c \<Rightarrow> c) a chs = a"
  by (induction chs arbitrary: a) simp_all

lemma fold_views_last:
  "view ch = Some c \<Longrightarrow> (\<forall>ch' \<in> set post. view ch' = None) \<Longrightarrow>
   foldl (\<lambda>acc ch. case view ch of None \<Rightarrow> acc | Some c \<Rightarrow> c) a (pre @ ch # post) = c"
  by (simp add: fold_views_none)

lemma fold_views_some:
  "\<exists>ch \<in> set chs. view ch \<noteq> None \<Longrightarrow>
   \<exists>ch \<in> set chs. view ch = Some (foldl (\<lambda>acc ch. case view ch of None \<Rightarrow> acc | Some c \<Rightarrow> c) a chs)"
proof (induction chs arbitrary: a rule: rev_induct)
  case Nil
  then show ?case by simp
next
  case (snoc x xs)
  then show ?case by (cases "view x") auto
qed

lemma write_points_concat:
  "write_points xs =
     concat (map (\<lambda>(v, c). if any_minus_one c then [] else vertex_line (xyz v) c) xs)"
  by (induction xs rule: write_points.induct) simp_all

lemma write_points_append: "write_points (xs @ ys) = write_points xs @ write_points ys"
  by (simp add: write_points_concat)

lemma select_zip: "zip (select xs ms) (select ys ms) = select (zip xs ys) ms"
proof (induction ms arbitrary: xs ys)
  case Nil
  then show ?case by (simp add: select_def)
next
  case (Cons m ms)
  show ?case
  proof (cases xs)
    case Nil
    then show ?thesis by (simp add: select_def)
  next
    case xs: (Cons x xs')
    show ?thesis
    proof (cases ys)
      case Nil
      then show ?thesis by (simp add: select_def)
    next
      case (Cons y ys')
      with xs Cons.IH [of xs' ys'] show ?thesis by (simp add: select_def)
    qed
  qed
qed

lemma select_zip_pred: "select (zip xs ys) (map k xs) = filter (\<lambda>(x, y). k x) (zip xs ys)"
proof (induction xs arbitrary: ys)
  case Nil
  then show ?case by (simp add: select_def)
next
  case (Cons x xs)
  then show ?case by (cases ys) (simp_all add: select_def)
qed

lemma zip_map_fst: "zip (map f xs) ys = map (\<lambda>(x, y). (f x, y)) (zip xs ys)"
  by (simp add: zip_map1)


lemma concat_map_map_filter:
  "concat (map f (map h (filter P xs))) = concat (map (\<lambda>x. if P x then f (h x) else []) xs)"
  by (induction xs) simp_all

lemma process_frame_Inr:
  assumes "get_sample (nusc ex) (sample_token sd_rec) = Inr sample"
    and "get_sample_data (nusc ex) (token sd_rec) = Inr lidar_rec"
    and "from_file fs (osp_join (dataroot (nusc ex)) (filename lidar_rec)) = Inr pc"
    and "color_from_cameras g fs sample (token sd_rec) camera_channels
           (replicate (length pc) no_color) = Inr coloring"
    and "get_calibrated_sensor (nusc ex) (calibrated_sensor_token lidar_rec) = Inr cs_record"
    and "get_ego_pose (nusc ex) (ego_pose_token lidar_rec) = Inr poserecord"
  shows "process_frame ex g fs min_dist max_dist sd_rec =
    Inr (concat (map (\<lambda>(p, c).
      let e = vadd (mat_vec (rotation_matrix (cs_rotation cs_record)) (xyz p))
                (cs_translation cs_record)
      in if min_dist \<le> dist_origin e \<and> dist_origin e \<le> max_dist \<and> \<not> any_minus_one c
         then vertex_line
                (vadd (mat_vec (rotation_matrix (ep_rotation poserecord)) e)
                   (ep_translation poserecord)) c
         else []) (zip pc coloring)))"
proof -
  let ?E = "\<lambda>p::lpoint. p\<lparr>xyz := vadd (mat_vec (rotation_matrix (cs_rotation cs_record)) (xyz p))
                (cs_translation cs_record)\<rparr>"
  let ?G = "\<lambda>p::lpoint. p\<lparr>xyz := vadd (mat_vec (rotation_matrix (ep_rotation poserecord)) (xyz p))
                (ep_translation poserecord)\<rparr>"
  let ?k = "\<lambda>p::lpoint. min_dist \<le> dist_origin (xyz p) \<and> dist_origin (xyz p) \<le> max_dist"
  have ego: "pc_translate (cs_translation cs_record)
      (pc_rotate (rotation_matrix (cs_rotation cs_record)) pc) = map ?E pc"
    by (simp add: pc_rotate_def pc_translate_def comp_def)
  have glob: "\<And>qs. pc_translate (ep_translation poserecord)
      (pc_rotate (rotation_matrix (ep_rotation poserecord)) qs) = map ?G qs"
    by (simp add: pc_rotate_def pc_translate_def comp_def)
  have pf: "process_frame ex g fs min_dist max_dist sd_rec =
    Inr (write_points (zip (map ?G (select (map ?E pc) (map ?k (map ?E pc))))
           (select coloring (map ?k (map ?E pc)))))"
    using assms by (simp add: process_frame_def Let_def ego glob comp_def)
  have "zip (map ?G (select (map ?E pc) (map ?k (map ?E pc))))
           (select coloring (map ?k (map ?E pc)))
      = map (\<lambda>(p, c). (?G p, c)) (zip (select (map ?E pc) (map ?k (map ?E pc)))
           (select coloring (map ?k (map ?E pc))))"
    by (rule zip_map_fst)
  also have "\<dots> = map (\<lambda>(p, c). (?G p, c)) (select (zip (map ?E pc) coloring) (map ?k (map ?E pc)))"
    by (simp only: select_zip)
  also have "\<dots> = map (\<lambda>(p, c). (?G p, c)) (filter (\<lambda>(p, c). ?k p) (zip (map ?E pc) coloring))"
    by (simp only: select_zip_pred)
  also have "\<dots> = map (\<lambda>(p, c). (?G (?E p), c)) (filter (\<lambda>(p, c). ?k (?E p)) (zip pc coloring))"
    by (simp add: zip_map_fst filter_map comp_def split_def)
  finally have z: "zip (map ?G (select (map ?E pc) (map ?k (map ?E pc))))
           (select coloring (map ?k (map ?E pc)))
      = map (\<lambda>(p, c). (?G (?E p), c)) (filter (\<lambda>(p, c). ?k (?E p)) (zip pc coloring))" .
  have "concat (map (\<lambda>(v, c). if any_minus_one c then [] else vertex_line (xyz v) c)
          (map (\<lambda>(p, c). (?G (?E p), c)) (filter (\<lambda>(p, c). ?k (?E p)) (zip pc coloring))))
     = concat (map (\<lambda>x. if (\<lambda>(p, c). ?k (?E p)) x
          then (\<lambda>(v, c). if any_minus_one c then [] else vertex_line (xyz v) c)
                 ((\<lambda>(p, c). (?G (?E p), c)) x)
          else []) (zip pc coloring))"
    by (rule concat_map_map_filter)
  also have "\<dots> = concat (map (\<lambda>(p, c).
      let e = vadd (mat_vec (rotation_matrix (cs_rotation cs_record)) (xyz p))
                (cs_translation cs_record)
      in if min_dist \<le> dist_origin e \<and> dist_origin e \<le> max_dist \<and> \<not> any_minus_one c
         then vertex_line
                (vadd (mat_vec (rotation_matrix (ep_rotation poserecord)) e)
                   (ep_translation poserecord)) c
         else []) (zip pc coloring))"
    by (rule arg_cong [where f = concat], rule map_cong) (auto simp: Let_def split_def)
  finally show ?thesis
    unfolding pf write_points_concat z by simp
qed

lemma frame_text_Inr:
  "process_frame ex g fs min_dist max_dist r = Inr w \<Longrightarrow> frame_text ex g fs min_dist max_dist r = w"
  by (simp add: frame_text_def)

lemma linked_terminates:
  "linked (nusc ex) r rs \<Longrightarrow>
   sd_next (last (r # rs)) = [] \<or> sample_data_table (nusc ex) (sd_next (last (r # rs))) = None \<Longrightarrow>
   \<exists>out. frame_loop ex g fs min_dist max_dist r f n = Some out"
proof (induction rs arbitrary: r f n)
  case Nil
  then show ?case
    by (subst frame_loop.simps)
      (auto simp: get_sample_data_def lookup_def split: sum.splits)
next
  case (Cons r' rs)
  from Cons.prems have nx: "sd_next r \<noteq> []" "get_sample_data (nusc ex) (sd_next r) = Inr r'"
    and l: "linked (nusc ex) r' rs"
    and e: "sd_next (last (r' # rs)) = [] \<or>
      sample_data_table (nusc ex) (sd_next (last (r' # rs))) = None" by simp_all
  show ?case
  proof (cases "process_frame ex g fs min_dist max_dist r")
    case (Inl e)
    then show ?thesis by (subst frame_loop.simps) simp
  next
    case (Inr w)
    from Cons.IH [OF l e, of "f @ w" "n + 1"] Inr nx show ?thesis
      by (subst frame_loop.simps) simp
  qed
qed

lemma linked_frames:
  "linked (nusc ex) r rs \<Longrightarrow> sd_next (last (r # rs)) = [] \<Longrightarrow>
   \<forall>x \<in> set (r # rs). \<exists>w. process_frame ex g fs min_dist max_dist x = Inr w \<Longrightarrow>
   frame_loop ex g fs min_dist max_dist r f n =
     Some \<lparr>raised = None,
           out_file = Some (f @ concat (map (frame_text ex g fs min_dist max_dist) (r # rs))),
           frame_ind = n + length (r # rs)\<rparr>"
proof (induction rs arbitrary: r f n)
  case Nil
  then show ?case
    by (subst frame_loop.simps) (auto simp: frame_text_Inr)
next
  case (Cons r' rs)
  from Cons.prems have nx: "sd_next r \<noteq> []" "get_sample_data (nusc ex) (sd_next r) = Inr r'"
    and l: "linked (nusc ex) r' rs" and e: "sd_next (last (r' # rs)) = []"
    and ok: "\<forall>x \<in> set (r' # rs). \<exists>w. process_frame ex g fs min_dist max_dist x = Inr w"
    by simp_all
  from Cons.prems obtain w where w: "process_frame ex g fs min_dist max_dist r = Inr w" by auto
  from Cons.IH [OF l e ok, of "f @ w" "n + 1"] w nx show ?case
    by (subst frame_loop.simps) (simp add: frame_text_Inr)
qed

lemma linked_dangling:
  "linked (nusc ex) r rs \<Longrightarrow> sd_next (last (r # rs)) \<noteq> [] \<Longrightarrow>
   sample_data_table (nusc ex) (sd_next (last (r # rs))) = None \<Longrightarrow>
   \<forall>x \<in> set (r # rs). \<exists>w. process_frame ex g fs min_dist max_dist x = Inr w \<Longrightarrow>
   frame_loop ex g fs min_dist max_dist r f n =
     Some \<lparr>raised = Some (KeyError (sd_next (last (r # rs)))),
           out_file = Some (f @ concat (map (frame_text ex g fs min_dist max_dist) (r # rs))),
           frame_ind = n + length rs\<rparr>"
proof (induction rs arbitrary: r f n)
  case Nil
  then show ?case
    by (subst frame_loop.simps) (auto simp: frame_text_Inr get_sample_data_def lookup_def)
next
  case (Cons r' rs)
  from Cons.prems have nx: "sd_next r \<noteq> []" "get_sample_data (nusc ex) (sd_next r) = Inr r'"
    and l: "linked (nusc ex) r' rs" and e: "sd_next (last (r' # rs)) \<noteq> []"
    and d: "sample_data_table (nusc ex) (sd_next (last (r' # rs))) = None"
    and ok: "\<forall>x \<in> set (r' # rs). \<exists>w. process_frame ex g fs min_dist max_dist x = Inr w"
    by simp_all
  from Cons.prems obtain w where w: "process_frame ex g fs min_dist max_dist r = Inr w" by auto
  from Cons.IH [OF l e d ok, of "f @ w" "n + 1"] w nx show ?case
    by (subst frame_loop.simps) (simp add: frame_text_Inr)
qed


lemma lookup_no_assertion: "lookup tbl k = Inl e \<Longrightarrow> \<not> is_assertion e"
  by (auto simp: lookup_def is_assertion_def split: option.splits)

lemma fetch_no_assertion:
  "get_scene n k = Inl e \<Longrightarrow> \<not> is_assertion e"
  "get_sample n k = Inl e \<Longrightarrow> \<not> is_assertion e"
  "get_sample_data n k = Inl e \<Longrightarrow> \<not> is_assertion e"
  "get_calibrated_sensor n k = Inl e \<Longrightarrow> \<not> is_assertion e"
  "get_ego_pose n k = Inl e \<Longrightarrow> \<not> is_assertion e"
  "from_file fs path = Inl e \<Longrightarrow> \<not> is_assertion e"
  "image_open fs path = Inl e \<Longrightarrow> \<not> is_assertion e"
  "intrinsic cs = Inl e \<Longrightarrow> \<not> is_assertion e"
  "global_nusc g = Inl e \<Longrightarrow> \<not> is_assertion e"
  "np_index m i = Inl e \<Longrightarrow> \<not> is_assertion e"
  "assign_masked col cm cc = Inl e \<Longrightarrow> \<not> is_assertion e"
  by (auto simp: get_scene_def get_sample_def get_sample_data_def get_calibrated_sensor_def
      get_ego_pose_def lookup_def from_file_def image_open_def intrinsic_def global_nusc_def
      np_index_def assign_masked_def is_assertion_def split: option.splits if_splits)

lemma pick_color_no_assertion: "pick_color im p = Inl e \<Longrightarrow> \<not> is_assertion e"
  by (cases p) (auto simp: Let_def im_data_def bindE_eq_Inl dest: fetch_no_assertion)

lemma mapE_no_assertion:
  "(\<And>x e. f x = Inl e \<Longrightarrow> \<not> is_assertion e) \<Longrightarrow> mapE f xs = Inl e \<Longrightarrow> \<not> is_assertion e"
  by (induction xs arbitrary: e) (auto simp: bindE_eq_Inl)

lemma mapE_pick_color_no_assertion: "mapE (pick_color im) xs = Inl e \<Longrightarrow> \<not> is_assertion e"
  using mapE_no_assertion [of "pick_color im"] pick_color_no_assertion by blast

lemma color_points_no_assertion:
  "color_points im cs_src ego_src ego_dst cs_dst pc0 = Inl e \<Longrightarrow> \<not> is_assertion e"
  by (auto simp: color_points_def Let_def bindE_eq_Inl
      dest: fetch_no_assertion mapE_pick_color_no_assertion)

lemma pcfi_no_assertion:
  "pointcloud_color_from_image n fs ptok ctok = Inl e \<Longrightarrow> \<not> is_assertion e"
  by (auto simp: pointcloud_color_from_image_def bindE_eq_Inl
      dest: fetch_no_assertion color_points_no_assertion)

lemma camera_view_no_assertion:
  "camera_view g fs sample tok ch = Inl e \<Longrightarrow> \<not> is_assertion e"
  by (auto simp: camera_view_def bindE_eq_Inl
      dest: fetch_no_assertion lookup_no_assertion pcfi_no_assertion)

lemma color_from_cameras_no_assertion:
  "color_from_cameras g fs sample tok chs col = Inl e \<Longrightarrow> \<not> is_assertion e"
proof (induction chs arbitrary: col)
  case Nil
  then show ?case by simp
next
  case (Cons ch chs)
  then show ?case
    by (auto simp: bindE_eq_Inl dest: camera_view_no_assertion fetch_no_assertion)
qed

lemma process_frame_no_assertion:
  "process_frame ex g fs min_dist max_dist sd_rec = Inl e \<Longrightarrow> \<not> is_assertion e"
  by (auto simp: process_frame_def Let_def bindE_eq_Inl
      dest: fetch_no_assertion color_from_cameras_no_assertion)

lemma frame_loop_no_assertion:
  assumes "frame_loop ex g fs min_dist max_dist sd_rec f n = Some out"
  shows "\<forall>e. raised out = Some e \<longrightarrow> \<not> is_assertion e"
  using assms
proof (rule frame_loop.raw_induct [rotated 1,
      where P = "\<lambda>ex g fs min_dist max_dist sd_rec f n out.
        \<forall>e. raised out = Some e \<longrightarrow> \<not> is_assertion e"])
  fix loop ex g fs min_dist max_dist sd_rec f n out
  assume IH: "\<And>ex g fs min_dist max_dist sd_rec f n out.
      loop ex g fs min_dist max_dist sd_rec f n = Some out \<Longrightarrow>
      \<forall>e. raised out = Some e \<longrightarrow> \<not> is_assertion e"
    and body: "(case process_frame ex g fs min_dist max_dist sd_rec of
        Inl e \<Rightarrow> Some \<lparr>raised = Some e, out_file = Some f, frame_ind = n\<rparr>
      | Inr written \<Rightarrow>
          if \<not> sd_next sd_rec = [] then
            (case get_sample_data (nusc ex) (sd_next sd_rec) of
               Inl e \<Rightarrow> Some \<lparr>raised = Some e, out_file = Some (f @ written), frame_ind = n\<rparr>
             | Inr sd_rec' \<Rightarrow> loop ex g fs min_dist max_dist sd_rec' (f @ written) (n + 1))
          else Some \<lparr>raised = None, out_file = Some (f @ written), frame_ind = n + 1\<rparr>) = Some out"
  from body show "\<forall>e. raised out = Some e \<longrightarrow> \<not> is_assertion e"
    by (auto split: sum.splits if_splits
        dest: process_frame_no_assertion fetch_no_assertion IH)
qed

lemma first_sd_rec_no_assertion: "first_sd_rec ex st ch = Inl e \<Longrightarrow> \<not> is_assertion e"
  by (auto simp: first_sd_rec_def bindE_eq_Inl dest: fetch_no_assertion lookup_no_assertion)


lemma color_from_cameras_colors:
  assumes "color_from_cameras g fs sample tok chs col0 = Inr col" and "c \<in> set col"
  shows "c \<in> set col0 \<or> (\<exists>px. c = rgb_to_float px)"
proof -
  let ?view = "\<lambda>i ch. color_in_view (camera_view g fs sample tok ch) i"
  from color_from_cameras_fold [OF assms(1)] have l: "length col = length col0"
    and n: "\<forall>i < length col0. col ! i =
      foldl (\<lambda>acc ch. case ?view i ch of None \<Rightarrow> acc | Some c \<Rightarrow> c) (col0 ! i) chs"
    by simp_all
  from assms(2) obtain i where i: "i < length col" "col ! i = c"
    by (auto simp: in_set_conv_nth)
  with l n have c: "c = foldl (\<lambda>acc ch. case ?view i ch of None \<Rightarrow> acc | Some c \<Rightarrow> c) (col0 ! i) chs"
    by simp
  show ?thesis
  proof (cases "\<exists>ch \<in> set chs. ?view i ch \<noteq> None")
    case True
    from fold_views_some [of chs "?view i" "col0 ! i", OF True] c
    obtain ch where "?view i ch = Some c" by auto
    from color_in_view_rgb [OF this] show ?thesis by simp
  next
    case False
    then have "\<forall>ch \<in> set chs. ?view i ch = None" by blast
    from fold_views_none [of chs "?view i" "col0 ! i", OF this] c i l
    show ?thesis by simp
  qed
qed

lemma any_minus_one_no_color [simp]: "any_minus_one no_color"
  by (simp add: no_color_def)

lemma real_unat_bounds: "0 \<le> real (unat (w :: 8 word)) \<and> real (unat w) \<le> 255"
proof -
  have "unat w < 2 ^ 8" using unsigned_less [of w] by simp
  then have "unat w \<le> 255" by simp
  then have "real (unat w) \<le> real 255" by (simp only: of_nat_le_iff)
  moreover have "0 \<le> real (unat w)" by (rule of_nat_0_le_iff)
  ultimately show ?thesis by simp
qed

lemma real_unat_not_minus_one: "real (unat (w :: 8 word)) \<noteq> - 1"
  using real_unat_bounds [of w] by linarith

lemma rgb_not_minus_one [simp]: "\<not> any_minus_one (rgb_to_float px)"
  using real_unat_not_minus_one by (cases px) simp

lemma write_points_form:
  "(\<forall>(v, c) \<in> set xs. c = no_color \<or> (\<exists>px. c = rgb_to_float px)) \<Longrightarrow>
   \<exists>pts. write_points xs = concat (map (\<lambda>(v, px). vertex_line v (rgb_to_float px)) pts)"
proof (induction xs)
  case Nil
  show ?case by (rule exI [of _ "[]"]) simp
next
  case (Cons a xs)
  obtain v c where a: "a = (v, c)" by (cases a)
  from Cons obtain pts where
    pts: "write_points xs = concat (map (\<lambda>(v, px). vertex_line v (rgb_to_float px)) pts)"
    by auto
  from Cons.prems a consider "c = no_color" | px where "c = rgb_to_float px" by auto
  then show ?case
  proof cases
    case 1
    with a pts show ?thesis by (intro exI [of _ pts]) simp
  next
    case 2
    with a pts show ?thesis by (intro exI [of _ "(xyz v, px) # pts"]) simp
  qed
qed

lemma select_subset: "set (select xs ms) \<subseteq> set xs"
  by (auto simp: select_def dest: set_zip_leftD)

lemma written_colors_form:
  assumes col: "color_from_cameras g fs sample tok camera_channels
            (replicate m no_color) = Inr coloring"
  shows "\<exists>pts. write_points (zip zs (select coloring keep)) =
    concat (map (\<lambda>(v, px). vertex_line v (rgb_to_float px)) pts)"
proof -
  have "\<forall>(v, c) \<in> set (zip zs (select coloring keep)). c = no_color \<or> (\<exists>px. c = rgb_to_float px)"
  proof (clarify)
    fix v c assume "(v, c) \<in> set (zip zs (select coloring keep))" and "\<nexists>px. c = rgb_to_float px"
    then have "c \<in> set coloring" using select_subset by (fastforce dest: set_zip_rightD)
    from color_from_cameras_colors [OF col this] \<open>\<nexists>px. c = rgb_to_float px\<close>
    show "c = no_color" by auto
  qed
  from write_points_form [OF this] show ?thesis by simp
qed

lemma process_frame_form:
  assumes "process_frame ex g fs min_dist max_dist sd_rec = Inr w"
  shows "\<exists>pts. w = concat (map (\<lambda>(v, px). vertex_line v (rgb_to_float px)) pts)"
  using assms
  by (clarsimp simp: process_frame_def Let_def bindE_eq_Inr) (erule written_colors_form)

lemma frame_loop_form:
  assumes "frame_loop ex g fs min_dist max_dist sd_rec f n = Some out"
  shows "(\<exists>pts. f = h @ concat (map (\<lambda>(v, px). vertex_line v (rgb_to_float px)) pts)) \<longrightarrow>
    (\<exists>pts. out_file out = Some (h @ concat (map (\<lambda>(v, px). vertex_line v (rgb_to_float px)) pts)))"
  using assms
proof (rule frame_loop.raw_induct [rotated 1,
      where P = "\<lambda>ex g fs min_dist max_dist sd_rec f n out.
        (\<exists>pts. f = h @ concat (map (\<lambda>(v, px). vertex_line v (rgb_to_float px)) pts)) \<longrightarrow>
        (\<exists>pts. out_file out =
           Some (h @ concat (map (\<lambda>(v, px). vertex_line v (rgb_to_float px)) pts)))"])
  fix loop ex g fs min_dist max_dist sd_rec f n out
  let ?L = "\<lambda>(v, px). vertex_line v (rgb_to_float px)"
  assume IH: "\<And>ex g fs min_dist max_dist sd_rec f n out.
      loop ex g fs min_dist max_dist sd_rec f n = Some out \<Longrightarrow>
      (\<exists>pts. f = h @ concat (map ?L pts)) \<longrightarrow>
      (\<exists>pts. out_file out = Some (h @ concat (map ?L pts)))"
    and body: "(case process_frame ex g fs min_dist max_dist sd_rec of
        Inl e \<Rightarrow> Some \<lparr>raised = Some e, out_file = Some f, frame_ind = n\<rparr>
      | Inr written \<Rightarrow>
          if \<not> sd_next sd_rec = [] then
            (case get_sample_data (nusc ex) (sd_next sd_rec) of
               Inl e \<Rightarrow> Some \<lparr>raised = Some e, out_file = Some (f @ written), frame_ind = n\<rparr>
             | Inr sd_rec' \<Rightarrow> loop ex g fs min_dist max_dist sd_rec' (f @ written) (n + 1))
          else Some \<lparr>raised = None, out_file = Some (f @ written), frame_ind = n + 1\<rparr>) = Some out"
  show "(\<exists>pts. f = h @ concat (map ?L pts)) \<longrightarrow>
      (\<exists>pts. out_file out = Some (h @ concat (map ?L pts)))"
  proof
    assume "\<exists>pts. f = h @ concat (map ?L pts)"
    then obtain pts where f: "f = h @ concat (map ?L pts)" ..
    show "\<exists>pts. out_file out = Some (h @ concat (map ?L pts))"
    proof (cases "process_frame ex g fs min_dist max_dist sd_rec")
      case (Inl e)
      with body f show ?thesis by auto
    next
      case (Inr w)
      from process_frame_form [OF Inr] obtain qs where w: "w = concat (map ?L qs)" ..
      have "f @ w = h @ concat (map ?L (pts @ qs))" by (simp add: f w)
      then have fw: "\<exists>ps. f @ w = h @ concat (map ?L ps)" by (rule exI)
      show ?thesis
      proof (cases "sd_next sd_rec = []")
        case True
        with body Inr have "out_file out = Some (f @ w)" by auto
        with fw show ?thesis by simp
      next
        case False
        show ?thesis
        proof (cases "get_sample_data (nusc ex) (sd_next sd_rec)")
          case (Inl e)
          with body Inr False have "out_file out = Some (f @ w)" by auto
          with fw show ?thesis by simp
        next
          case r: (Inr sd_rec')
          with body Inr False
          have "loop ex g fs min_dist max_dist sd_rec' (f @ w) (n + 1) = Some out" by simp
          from IH [OF this] fw show ?thesis by (rule mp)
        qed
      qed
    qed
  qed
qed

declare str_nat.simps [simp del]

lemma digit_char_digit: "n < 10 \<Longrightarrow> digit_char n \<in> set ''0123456789''"
proof -
  assume "n < 10"
  then have "n \<in> {0, 1, 2, 3, 4, 5, 6, 7, 8, 9}" by auto
  then show ?thesis by (auto simp: digit_char_def)
qed

lemma str_nat_digits: "set (str_nat n) \<subseteq> set ''0123456789''"
proof (induction n rule: str_nat.induct)
  case (1 n)
  show ?case
  proof (cases "n < 10")
    case True
    then show ?thesis using digit_char_digit [of n] by (subst str_nat.simps) simp
  next
    case False
    with 1 digit_char_digit [of "n mod 10"] show ?thesis by (subst str_nat.simps) simp
  qed
qed

lemma frac_digits_length [simp]: "length (frac_digits d n) = d"
  by (induction d arbitrary: n) simp_all

lemma frac_digits_digits: "set (frac_digits d n) \<subseteq> set ''0123456789''"
proof (induction d arbitrary: n)
  case 0
  show ?case by simp
next
  case (Suc d)
  from Suc [of "n div 10"] digit_char_digit [of "n mod 10"] show ?case by simp
qed

lemma format_f_chars: "set (format_f d x) \<subseteq> set ''-.0123456789''"
proof -
  define D where "D = set ''-.0123456789''"
  have m: "CHR ''-'' \<in> D" "CHR ''.'' \<in> D" by (simp_all add: D_def)
  have a: "set ''0123456789'' \<subseteq> D" by (auto simp: D_def)
  have s1: "set (str_nat k) \<subseteq> D" for k using str_nat_digits a by (rule subset_trans)
  have s2: "set (frac_digits e k) \<subseteq> D" for e k using frac_digits_digits a by (rule subset_trans)
  have "set (format_f d x) \<subseteq> D"
    unfolding format_f_def Let_def using m s1 s2 by auto
  then show ?thesis by (simp only: D_def)
qed


lemmas demo_defs = demo_nusc_def demo_files_def demo_sample_def demo_sd_def demo_cloud_def
  plain_image_def demo_explorer_def alt_nusc_def

lemmas fetch_defs = get_scene_def get_sample_def get_sample_data_def get_calibrated_sensor_def
  get_ego_pose_def lookup_def from_file_def image_open_def osp_join_def intrinsic_def
  global_nusc_def

lemmas picture_defs = camera_view_def pointcloud_color_from_image_def
  color_points_def to_camera_frame_def pc_rotate_def pc_translate_def view_points_def
  view_point_def select_def Let_def np_round_def astype_int32_def im_data_def np_index_def

lemma frac_digits_numeral:
  "frac_digits (numeral k) n = frac_digits (pred_numeral k) (n div 10) @ [digit_char (n mod 10)]"
proof -
  have "frac_digits (Suc (pred_numeral k)) n =
    frac_digits (pred_numeral k) (n div 10) @ [digit_char (n mod 10)]"
    by (rule frac_digits.simps(2))
  then show ?thesis by (simp only: numeral_eq_Suc [symmetric])
qed

lemmas format_defs = format_f_def np_round_def digit_char_def frac_digits_numeral str_nat.simps
  newline_def

lemma demo_front:
  "camera_view (Some demo_nusc) demo_files demo_sample ''lidar0'' ''CAM_FRONT'' =
     Inr ([(10, 20, 30), (10, 20, 30)], [True, False, True])"
  by (simp add: picture_defs demo_defs fetch_defs)

lemma demo_right:
  "camera_view (Some demo_nusc) demo_files demo_sample ''lidar0'' ''CAM_FRONT_RIGHT'' =
     Inr ([(128, 64, 32), (128, 64, 32)], [True, False, True])"
  by (simp add: picture_defs demo_defs fetch_defs)

lemma demo_pcfi_blind:
  "pointcloud_color_from_image demo_nusc demo_files ''lidar0'' ''blind'' =
     Inr ([], [False, False, False])"
  by (simp add: picture_defs demo_defs fetch_defs)

lemma demo_blind:
  "ch \<in> {''CAM_FRONT_LEFT'', ''CAM_BACK_LEFT'', ''CAM_BACK'', ''CAM_BACK_RIGHT''} \<Longrightarrow>
   camera_view (Some demo_nusc) demo_files demo_sample ''lidar0'' ch =
     Inr ([], [False, False, False])"
  by (auto simp: camera_view_def global_nusc_def lookup_def demo_sample_def demo_pcfi_blind)

lemma alt_front:
  "camera_view (Some alt_nusc) demo_files demo_sample ''lidar0'' ''CAM_FRONT'' =
     Inr ([(10, 20, 30), (10, 20, 30)], [True, False, True])"
  by (simp add: picture_defs demo_defs fetch_defs)

lemma alt_right:
  "camera_view (Some alt_nusc) demo_files demo_sample ''lidar0'' ''CAM_FRONT_RIGHT'' =
     Inr ([(255, 0, 0), (255, 0, 0)], [True, False, True])"
  by (simp add: picture_defs demo_defs fetch_defs)

lemma alt_pcfi_blind:
  "pointcloud_color_from_image alt_nusc demo_files ''lidar0'' ''blind'' =
     Inr ([], [False, False, False])"
  by (simp add: picture_defs demo_defs fetch_defs)

lemma alt_blind:
  "ch \<in> {''CAM_FRONT_LEFT'', ''CAM_BACK_LEFT'', ''CAM_BACK'', ''CAM_BACK_RIGHT''} \<Longrightarrow>
   camera_view (Some alt_nusc) demo_files demo_sample ''lidar0'' ch =
     Inr ([], [False, False, False])"
  by (auto simp: camera_view_def global_nusc_def lookup_def demo_sample_def alt_pcfi_blind)

lemma demo_coloring:
  "color_from_cameras (Some demo_nusc) demo_files demo_sample ''lidar0'' camera_channels
     (replicate 3 no_color) = Inr [(128, 64, 32), no_color, (128, 64, 32)]"
  by (simp add: camera_channels_def demo_front demo_right demo_blind assign_masked_def
      numeral_3_eq_3)

lemma alt_coloring:
  "color_from_cameras (Some alt_nusc) demo_files demo_sample ''lidar0'' camera_channels
     (replicate 3 no_color) = Inr [(255, 0, 0), no_color, (255, 0, 0)]"
  by (simp add: camera_channels_def alt_front alt_right alt_blind assign_masked_def
      numeral_3_eq_3)

lemma demo_line:
  "vertex_line (110, 210, 5) (128, 64, 32) =
     ''v 110.00000000 210.00000000 5.00000000 0.5020 0.2510 0.1255'' @ newline"
  by (simp add: format_defs)

lemma alt_line:
  "vertex_line (110, 210, 5) (255, 0, 0) =
     ''v 110.00000000 210.00000000 5.00000000 1.0000 0.0000 0.0000'' @ newline"
  by (simp add: format_defs)


lemma demo_dists:
  "dist_origin (10, 10, 5) = 15" "dist_origin (0, 0, 5) = 5" "dist_origin (1, 1, 1 / 2) = 3 / 2"
proof -
  show "dist_origin (10, 10, 5) = 15" by simp
  show "dist_origin (0, 0, 5) = 5" by simp
  have "(1::real) + 1 + (1 / 2)\<^sup>2 = (3 / 2)\<^sup>2" by (simp add: power2_eq_square)
  then show "dist_origin (1, 1, 1 / 2) = 3 / 2" by (simp add: real_sqrt_unique)
qed

lemma demo_frame:
  "process_frame demo_explorer (Some demo_nusc) demo_files 3 30 (demo_sd ''lidar0'' ''cloud.bin'' []) =
     Inr (''v 110.00000000 210.00000000 5.00000000 0.5020 0.2510 0.1255'' @ newline)"
proof -
  have s: "get_sample (nusc demo_explorer) (sample_token (demo_sd ''lidar0'' ''cloud.bin'' [])) =
      Inr demo_sample"
    by (simp add: demo_explorer_def demo_nusc_def demo_sd_def fetch_defs)
  have l: "get_sample_data (nusc demo_explorer) (token (demo_sd ''lidar0'' ''cloud.bin'' [])) =
      Inr (demo_sd ''lidar0'' ''cloud.bin'' [])"
    by (simp add: demo_explorer_def demo_nusc_def demo_sd_def fetch_defs)
  have f: "from_file demo_files (osp_join (dataroot (nusc demo_explorer))
      (filename (demo_sd ''lidar0'' ''cloud.bin'' []))) = Inr demo_cloud"
    by (simp add: demo_explorer_def demo_nusc_def demo_sd_def demo_files_def fetch_defs)
  have c: "color_from_cameras (Some demo_nusc) demo_files demo_sample
      (token (demo_sd ''lidar0'' ''cloud.bin'' [])) camera_channels
      (replicate (length demo_cloud) no_color) = Inr [(128, 64, 32), no_color, (128, 64, 32)]"
    using demo_coloring by (simp add: demo_sd_def demo_cloud_def numeral_3_eq_3)
  have cs: "get_calibrated_sensor (nusc demo_explorer)
      (calibrated_sensor_token (demo_sd ''lidar0'' ''cloud.bin'' [])) =
      Inr \<lparr>cs_rotation = (1, 0, 0, 0), cs_translation = (0, 0, 0),
       camera_intrinsic = Some ((1, 0, 0), (0, 1, 0), (0, 0, 1))\<rparr>"
    by (simp add: demo_explorer_def demo_nusc_def demo_sd_def fetch_defs)
  have ep: "get_ego_pose (nusc demo_explorer)
      (ego_pose_token (demo_sd ''lidar0'' ''cloud.bin'' [])) =
      Inr \<lparr>ep_rotation = (1, 0, 0, 0), ep_translation = (100, 200, 0)\<rparr>"
    by (simp add: demo_explorer_def demo_nusc_def demo_sd_def fetch_defs)
  show ?thesis
    unfolding process_frame_Inr [OF s l f c cs ep]
    by (simp add: demo_cloud_def demo_dists demo_line no_color_def Let_def
        del: dist_origin.simps vertex_line.simps)
qed


lemma alt_frame:
  "process_frame demo_explorer (Some alt_nusc) demo_files 3 30 (demo_sd ''lidar0'' ''cloud.bin'' []) =
     Inr (''v 110.00000000 210.00000000 5.00000000 1.0000 0.0000 0.0000'' @ newline)"
proof -
  have s: "get_sample (nusc demo_explorer) (sample_token (demo_sd ''lidar0'' ''cloud.bin'' [])) =
      Inr demo_sample"
    by (simp add: demo_explorer_def demo_nusc_def demo_sd_def fetch_defs)
  have l: "get_sample_data (nusc demo_explorer) (token (demo_sd ''lidar0'' ''cloud.bin'' [])) =
      Inr (demo_sd ''lidar0'' ''cloud.bin'' [])"
    by (simp add: demo_explorer_def demo_nusc_def demo_sd_def fetch_defs)
  have f: "from_file demo_files (osp_join (dataroot (nusc demo_explorer))
      (filename (demo_sd ''lidar0'' ''cloud.bin'' []))) = Inr demo_cloud"
    by (simp add: demo_explorer_def demo_nusc_def demo_sd_def demo_files_def fetch_defs)
  have c: "color_from_cameras (Some alt_nusc) demo_files demo_sample
      (token (demo_sd ''lidar0'' ''cloud.bin'' [])) camera_channels
      (replicate (length demo_cloud) no_color) = Inr [(255, 0, 0), no_color, (255, 0, 0)]"
    using alt_coloring by (simp add: demo_sd_def demo_cloud_def numeral_3_eq_3)
  have cs: "get_calibrated_sensor (nusc demo_explorer)
      (calibrated_sensor_token (demo_sd ''lidar0'' ''cloud.bin'' [])) =
      Inr \<lparr>cs_rotation = (1, 0, 0, 0), cs_translation = (0, 0, 0),
       camera_intrinsic = Some ((1, 0, 0), (0, 1, 0), (0, 0, 1))\<rparr>"
    by (simp add: demo_explorer_def demo_nusc_def demo_sd_def fetch_defs)
  have ep: "get_ego_pose (nusc demo_explorer)
      (ego_pose_token (demo_sd ''lidar0'' ''cloud.bin'' [])) =
      Inr \<lparr>ep_rotation = (1, 0, 0, 0), ep_translation = (100, 200, 0)\<rparr>"
    by (simp add: demo_explorer_def demo_nusc_def demo_sd_def fetch_defs)
  show ?thesis
    unfolding process_frame_Inr [OF s l f c cs ep]
    by (simp add: demo_cloud_def demo_dists alt_line no_color_def Let_def
        del: dist_origin.simps vertex_line.simps)
qed

lemma color_points_empty:
  "camera_intrinsic cs_dst = Some K \<Longrightarrow>
   color_points im cs_src ego_src ego_dst cs_dst [] = Inr ([], [])"
  by (simp add: color_points_def to_camera_frame_map view_points_def select_def intrinsic_def)

lemma demo_sample_data:
  "get_sample_data demo_nusc ''lidar0'' = Inr (demo_sd ''lidar0'' ''cloud.bin'' [])"
  "get_sample_data demo_nusc ''front'' = Inr (demo_sd ''front'' ''front.jpg'' [])"
  "get_sample_data demo_nusc ''right'' = Inr (demo_sd ''right'' ''right.jpg'' [])"
  "get_sample_data demo_nusc ''blind'' = Inr (demo_sd ''blind'' ''blind.jpg'' [])"
  "get_sample_data demo_nusc ''a'' = Inr (demo_sd ''a'' ''empty.bin'' ''b'')"
  "get_sample_data demo_nusc ''b'' = Inr (demo_sd ''b'' ''empty.bin'' ''c'')"
  "get_sample_data demo_nusc ''c'' = Inr (demo_sd ''c'' ''empty.bin'' [])"
  "get_sample_data demo_nusc ''x'' = Inr (demo_sd ''x'' ''empty.bin'' ''missing'')"
  "sample_data_table demo_nusc ''missing'' = None"
  by (simp_all add: demo_nusc_def get_sample_data_def lookup_def)

lemma demo_records:
  "get_sample demo_nusc ''sample0'' = Inr demo_sample"
  "get_calibrated_sensor demo_nusc ''cs'' = Inr \<lparr>cs_rotation = (1, 0, 0, 0),
     cs_translation = (0, 0, 0), camera_intrinsic = Some ((1, 0, 0), (0, 1, 0), (0, 0, 1))\<rparr>"
  "get_ego_pose demo_nusc ''ego'' =
     Inr \<lparr>ep_rotation = (1, 0, 0, 0), ep_translation = (100, 200, 0)\<rparr>"
  "dataroot demo_nusc = ''root''"
  by (simp_all add: demo_nusc_def get_sample_def get_calibrated_sensor_def get_ego_pose_def
      lookup_def)

lemma demo_sd_fields:
  "token (demo_sd tok file nxt) = tok" "filename (demo_sd tok file nxt) = file"
  "sample_token (demo_sd tok file nxt) = ''sample0''"
  "calibrated_sensor_token (demo_sd tok file nxt) = ''cs''"
  "ego_pose_token (demo_sd tok file nxt) = ''ego''" "sd_next (demo_sd tok file nxt) = nxt"
  by (simp_all add: demo_sd_def)

lemma demo_paths:
  "from_file demo_files (osp_join ''root'' ''empty.bin'') = Inr []"
  "\<exists>im. image_open demo_files (osp_join ''root'' ''front.jpg'') = Inr im"
  "\<exists>im. image_open demo_files (osp_join ''root'' ''right.jpg'') = Inr im"
  "\<exists>im. image_open demo_files (osp_join ''root'' ''blind.jpg'') = Inr im"
  by (simp_all add: demo_files_def from_file_def image_open_def osp_join_def)

lemma empty_pcfi:
  assumes "tok \<in> {''a'', ''b'', ''c'', ''x''}" and "cam \<in> {''front'', ''right'', ''blind''}"
  shows "pointcloud_color_from_image demo_nusc demo_files tok cam = Inr ([], [])"
proof -
  from assms(2) obtain fl im where
    c: "get_sample_data demo_nusc cam = Inr (demo_sd cam fl [])"
    and i: "image_open demo_files (osp_join ''root'' fl) = Inr im"
    using demo_sample_data(2-4) demo_paths(2-4) by auto
  from assms(1) obtain nxt where
    p: "get_sample_data demo_nusc tok = Inr (demo_sd tok ''empty.bin'' nxt)"
    using demo_sample_data(5-8) by auto
  show ?thesis
    by (simp add: pointcloud_color_from_image_def c p i demo_records demo_sd_fields
        demo_paths(1) color_points_empty)
qed

lemma demo_data:
  "ch \<in> set camera_channels \<Longrightarrow>
   \<exists>cam \<in> {''front'', ''right'', ''blind''}. lookup (data demo_sample) ch = Inr cam"
  by (auto simp: camera_channels_def demo_sample_def lookup_def)

lemma empty_view:
  assumes "tok \<in> {''a'', ''b'', ''c'', ''x''}" and "ch \<in> set camera_channels"
  shows "camera_view (Some demo_nusc) demo_files demo_sample tok ch = Inr ([], [])"
proof -
  from demo_data [OF assms(2)] obtain cam where
    "cam \<in> {''front'', ''right'', ''blind''}" "lookup (data demo_sample) ch = Inr cam" by blast
  with empty_pcfi [OF assms(1)] show ?thesis
    by (simp add: camera_view_def global_nusc_def)
qed

lemma empty_coloring:
  "\<forall>ch \<in> set chs. camera_view g fs sample tok ch = Inr ([], []) \<Longrightarrow>
   color_from_cameras g fs sample tok chs [] = Inr []"
  by (induction chs) (simp_all add: assign_masked_def)

lemma empty_frame:
  assumes "tok \<in> {''a'', ''b'', ''c'', ''x''}"
  shows "process_frame demo_explorer (Some demo_nusc) demo_files 3 30
    (demo_sd tok ''empty.bin'' nxt) = Inr []"
proof -
  from assms obtain nxt' where
    p: "get_sample_data demo_nusc tok = Inr (demo_sd tok ''empty.bin'' nxt')"
    using demo_sample_data(5-8) by auto
  have c: "color_from_cameras (Some demo_nusc) demo_files demo_sample tok camera_channels [] = Inr []"
    using empty_view [OF assms] by (intro empty_coloring) simp
  show ?thesis
    by (simp add: process_frame_def demo_explorer_def demo_records demo_sd_fields p demo_paths(1)
        c pc_rotate_def pc_translate_def select_def)
qed

lemma demo_first:
  "first_sd_rec demo_explorer ''scene0'' ''LIDAR_TOP'' = Inr (demo_sd ''lidar0'' ''cloud.bin'' [])"
  "first_sd_rec demo_explorer ''scene0'' ''RADAR_FRONT'' = Inr (demo_sd ''a'' ''empty.bin'' ''b'')"
  "first_sd_rec demo_explorer ''scene0'' ''RADAR_FRONT_LEFT'' =
     Inr (demo_sd ''x'' ''empty.bin'' ''missing'')"
  by (simp_all add: first_sd_rec_def demo_defs fetch_defs)

lemma demo_export:
  "export_scene_pointcloud demo_explorer (Some demo_nusc) demo_files ''scene0'' ''LIDAR_TOP'' 3 30 =
     Some \<lparr>raised = None,
       out_file = Some (''OBJ File:'' @ newline @
         ''v 110.00000000 210.00000000 5.00000000 0.5020 0.2510 0.1255'' @ newline),
       frame_ind = 1\<rparr>"
  by (simp add: export_scene_pointcloud_def valid_channels_def demo_first frame_loop.simps
      demo_frame) (simp add: demo_sd_def)

lemma alt_export:
  "export_scene_pointcloud demo_explorer (Some alt_nusc) demo_files ''scene0'' ''LIDAR_TOP'' 3 30 =
     Some \<lparr>raised = None,
       out_file = Some (''OBJ File:'' @ newline @
         ''v 110.00000000 210.00000000 5.00000000 1.0000 0.0000 0.0000'' @ newline),
       frame_ind = 1\<rparr>"
  by (simp add: export_scene_pointcloud_def valid_channels_def demo_first frame_loop.simps
      alt_frame) (simp add: demo_sd_def)

section \<open>Properties of the export\<close>


lemma pcfi_fetched:
  assumes "pointcloud_color_from_image n fs pointsensor_token camera_token = Inr r"
  shows "\<exists>cam pointsensor pc0 im cs_src ego_src ego_dst cs_dst.
    get_sample_data n camera_token = Inr cam \<and>
    get_sample_data n pointsensor_token = Inr pointsensor \<and>
    from_file fs (osp_join (dataroot n) (filename pointsensor)) = Inr pc0 \<and>
    image_open fs (osp_join (dataroot n) (filename cam)) = Inr im \<and>
    get_calibrated_sensor n (calibrated_sensor_token pointsensor) = Inr cs_src \<and>
    get_ego_pose n (ego_pose_token pointsensor) = Inr ego_src \<and>
    get_ego_pose n (ego_pose_token cam) = Inr ego_dst \<and>
    get_calibrated_sensor n (calibrated_sensor_token cam) = Inr cs_dst \<and>
    color_points im cs_src ego_src ego_dst cs_dst pc0 = Inr r"
  using assms unfolding pointcloud_color_from_image_def bindE_eq_Inr by blast

lemma color_points_frame:
  assumes "color_points im cs_src ego_src ego_dst cs_dst pc0 = Inr (coloring, msk)"
  shows "\<exists>K. camera_intrinsic cs_dst = Some K \<and>
    msk = map (\<lambda>p. in_picture im (snd (snd (xyz p))) (view_point K True (xyz p)))
           (to_camera_frame cs_src ego_src ego_dst cs_dst pc0)"
proof -
  from assms obtain K where K: "camera_intrinsic cs_dst = Some K"
    by (auto simp: color_points_def Let_def bindE_eq_Inr intrinsic_def split: option.splits)
  from color_points_mask [OF assms K] K show ?thesis by blast
qed

text \<open>
  C1. For every point of the cloud, \<^verbatim>\<open>pointcloud_color_from_image\<close> reaches the
  frame of the camera by four steps in this order: rotate by the rotation of the source
  calibration and then translate by its translation; rotate by the rotation of the source
  ego pose and then translate by its translation; translate by the negated translation of
  the destination ego pose and then rotate by the transpose of its rotation; translate by
  the negated translation of the destination calibration and then rotate by the transpose
  of its rotation. The source records are those of the point sensor, the destination
  records those of the camera, and the mask the function returns is taken on the
  transformed points.
\<close>

theorem frame_chain_order:
  "to_camera_frame cs_src ego_src ego_dst cs_dst pc =
     (let step1 = (\<lambda>v. vadd (mat_vec (rotation_matrix (cs_rotation cs_src)) v)
                     (cs_translation cs_src));
          step2 = (\<lambda>v. vadd (mat_vec (rotation_matrix (ep_rotation ego_src)) v)
                     (ep_translation ego_src));
          step3 = (\<lambda>v. mat_vec (transpose3 (rotation_matrix (ep_rotation ego_dst)))
                     (vadd v (vneg (ep_translation ego_dst))));
          step4 = (\<lambda>v. mat_vec (transpose3 (rotation_matrix (cs_rotation cs_dst)))
                     (vadd v (vneg (cs_translation cs_dst))))
      in map (\<lambda>p. p\<lparr>xyz := step4 (step3 (step2 (step1 (xyz p))))\<rparr>) pc)
   \<and> (pointcloud_color_from_image n fs pointsensor_token camera_token = Inr (coloring, msk) \<longrightarrow>
        (\<exists>cam pointsensor pc0 im src_cs src_ego dst_ego dst_cs K.
           get_sample_data n camera_token = Inr cam \<and>
           get_sample_data n pointsensor_token = Inr pointsensor \<and>
           from_file fs (osp_join (dataroot n) (filename pointsensor)) = Inr pc0 \<and>
           image_open fs (osp_join (dataroot n) (filename cam)) = Inr im \<and>
           get_calibrated_sensor n (calibrated_sensor_token pointsensor) = Inr src_cs \<and>
           get_ego_pose n (ego_pose_token pointsensor) = Inr src_ego \<and>
           get_ego_pose n (ego_pose_token cam) = Inr dst_ego \<and>
           get_calibrated_sensor n (calibrated_sensor_token cam) = Inr dst_cs \<and>
           camera_intrinsic dst_cs = Some K \<and>
           msk = map (\<lambda>p. in_picture im (snd (snd (xyz p))) (view_point K True (xyz p)))
                   (to_camera_frame src_cs src_ego dst_ego dst_cs pc0)))"
proof (intro conjI impI)
  show "to_camera_frame cs_src ego_src ego_dst cs_dst pc =
     (let step1 = (\<lambda>v. vadd (mat_vec (rotation_matrix (cs_rotation cs_src)) v)
                     (cs_translation cs_src));
          step2 = (\<lambda>v. vadd (mat_vec (rotation_matrix (ep_rotation ego_src)) v)
                     (ep_translation ego_src));
          step3 = (\<lambda>v. mat_vec (transpose3 (rotation_matrix (ep_rotation ego_dst)))
                     (vadd v (vneg (ep_translation ego_dst))));
          step4 = (\<lambda>v. mat_vec (transpose3 (rotation_matrix (cs_rotation cs_dst)))
                     (vadd v (vneg (cs_translation cs_dst))))
      in map (\<lambda>p. p\<lparr>xyz := step4 (step3 (step2 (step1 (xyz p))))\<rparr>) pc)"
    by (simp add: to_camera_frame_map Let_def)
next
  assume "pointcloud_color_from_image n fs pointsensor_token camera_token = Inr (coloring, msk)"
  from pcfi_fetched [OF this] obtain cam pointsensor pc0 im src_cs src_ego dst_ego dst_cs where
    f: "get_sample_data n camera_token = Inr cam"
      "get_sample_data n pointsensor_token = Inr pointsensor"
      "from_file fs (osp_join (dataroot n) (filename pointsensor)) = Inr pc0"
      "image_open fs (osp_join (dataroot n) (filename cam)) = Inr im"
      "get_calibrated_sensor n (calibrated_sensor_token pointsensor) = Inr src_cs"
      "get_ego_pose n (ego_pose_token pointsensor) = Inr src_ego"
      "get_ego_pose n (ego_pose_token cam) = Inr dst_ego"
      "get_calibrated_sensor n (calibrated_sensor_token cam) = Inr dst_cs"
    and c: "color_points im src_cs src_ego dst_ego dst_cs pc0 = Inr (coloring, msk)"
    by blast
  from color_points_frame [OF c] obtain K where "camera_intrinsic dst_cs = Some K"
    "msk = map (\<lambda>p. in_picture im (snd (snd (xyz p))) (view_point K True (xyz p)))
                   (to_camera_frame src_cs src_ego dst_ego dst_cs pc0)" by blast
  with f show "\<exists>cam pointsensor pc0 im src_cs src_ego dst_ego dst_cs K.
           get_sample_data n camera_token = Inr cam \<and>
           get_sample_data n pointsensor_token = Inr pointsensor \<and>
           from_file fs (osp_join (dataroot n) (filename pointsensor)) = Inr pc0 \<and>
           image_open fs (osp_join (dataroot n) (filename cam)) = Inr im \<and>
           get_calibrated_sensor n (calibrated_sensor_token pointsensor) = Inr src_cs \<and>
           get_ego_pose n (ego_pose_token pointsensor) = Inr src_ego \<and>
           get_ego_pose n (ego_pose_token cam) = Inr dst_ego \<and>
           get_calibrated_sensor n (calibrated_sensor_token cam) = Inr dst_cs \<and>
           camera_intrinsic dst_cs = Some K \<and>
           msk = map (\<lambda>p. in_picture im (snd (snd (xyz p))) (view_point K True (xyz p)))
                   (to_camera_frame src_cs src_ego dst_ego dst_cs pc0)"
    by blast
qed

lemma demo_pcfi_right:
  "pointcloud_color_from_image demo_nusc demo_files ''lidar0'' ''right'' =
     Inr ([(128, 64, 32), (128, 64, 32)], [True, False, True])"
  using demo_right
  by (simp add: camera_view_def global_nusc_def demo_sample_def lookup_def)

theorem frame_chain_order_witness:
  "\<exists>cam pointsensor pc0 im src_cs src_ego dst_ego dst_cs K.
     get_sample_data demo_nusc ''right'' = Inr cam \<and>
     get_sample_data demo_nusc ''lidar0'' = Inr pointsensor \<and>
     from_file demo_files (osp_join (dataroot demo_nusc) (filename pointsensor)) = Inr pc0 \<and>
     image_open demo_files (osp_join (dataroot demo_nusc) (filename cam)) = Inr im \<and>
     get_calibrated_sensor demo_nusc (calibrated_sensor_token pointsensor) = Inr src_cs \<and>
     get_ego_pose demo_nusc (ego_pose_token pointsensor) = Inr src_ego \<and>
     get_ego_pose demo_nusc (ego_pose_token cam) = Inr dst_ego \<and>
     get_calibrated_sensor demo_nusc (calibrated_sensor_token cam) = Inr dst_cs \<and>
     camera_intrinsic dst_cs = Some K \<and>
     [True, False, True] =
       map (\<lambda>p. in_picture im (snd (snd (xyz p))) (view_point K True (xyz p)))
         (to_camera_frame src_cs src_ego dst_ego dst_cs pc0)"
  using frame_chain_order [of _ _ _ _ _ demo_nusc demo_files "''lidar0''" "''right''"
      "[(128, 64, 32), (128, 64, 32)]" "[True, False, True]"] demo_pcfi_right
  by blast

text \<open>
  The mask of a camera selects a point exactly when its depth in the frame of the
  camera, taken before the projection, is greater than 0, its projected \<open>u\<close> lies
  strictly between 1 and the width of the image minus 1, and its projected \<open>v\<close> lies
  strictly between 1 and the height minus 1. A colour that is not the sentinel comes from
  a camera whose mask, taken on the cloud that the camera's computation loaded, selected
  the entry of that index.
\<close>

lemma mask_conditions:
  "(color_points im cs_src ego_src ego_dst cs_dst pc0 = Inr (coloring, msk) \<and>
    camera_intrinsic cs_dst = Some K \<and> i < length pc0 \<and>
    xyz (to_camera_frame cs_src ego_src ego_dst cs_dst pc0 ! i) = (x, y, z) \<and>
    view_point K True (x, y, z) = (u, v, w) \<longrightarrow>
      length msk = length pc0 \<and>
      (msk ! i \<longleftrightarrow>
         0 < z \<and> 1 < u \<and> u < real (size_w im) - 1 \<and> 1 < v \<and> v < real (size_h im) - 1))
   \<and> (color_from_cameras g fs sample tok camera_channels (replicate m no_color) = Inr col \<and>
      j < m \<and> \<not> any_minus_one (col ! j) \<longrightarrow>
      (\<exists>ch cam_coloring cam_mask. ch \<in> set camera_channels \<and>
         camera_view g fs sample tok ch = Inr (cam_coloring, cam_mask) \<and>
         j < length cam_mask \<and> cam_mask ! j \<and>
         color_in_view (camera_view g fs sample tok ch) j = Some (col ! j)))"
proof (intro conjI impI)
  assume a: "color_points im cs_src ego_src ego_dst cs_dst pc0 = Inr (coloring, msk) \<and>
    camera_intrinsic cs_dst = Some K \<and> i < length pc0 \<and>
    xyz (to_camera_frame cs_src ego_src ego_dst cs_dst pc0 ! i) = (x, y, z) \<and>
    view_point K True (x, y, z) = (u, v, w)"
  then have m: "msk = map (\<lambda>p. in_picture im (snd (snd (xyz p))) (view_point K True (xyz p)))
           (to_camera_frame cs_src ego_src ego_dst cs_dst pc0)"
    using color_points_mask by blast
  then show "length msk = length pc0" by simp
  from a have i: "i < length (to_camera_frame cs_src ego_src ego_dst cs_dst pc0)" by simp
  from a show "msk ! i \<longleftrightarrow>
         0 < z \<and> 1 < u \<and> u < real (size_w im) - 1 \<and> 1 < v \<and> v < real (size_h im) - 1"
    unfolding m nth_map [OF i] by simp
next
  assume b: "color_from_cameras g fs sample tok camera_channels (replicate m no_color) = Inr col \<and>
      j < m \<and> \<not> any_minus_one (col ! j)"
  let ?view = "\<lambda>ch. color_in_view (camera_view g fs sample tok ch) j"
  from b color_from_cameras_fold [of g fs sample tok camera_channels "replicate m no_color" col]
  have c: "col ! j = foldl (\<lambda>acc ch. case ?view ch of None \<Rightarrow> acc | Some c \<Rightarrow> c)
      no_color camera_channels"
    by simp
  have "\<exists>ch \<in> set camera_channels. ?view ch \<noteq> None"
  proof (rule ccontr)
    assume "\<not> (\<exists>ch \<in> set camera_channels. ?view ch \<noteq> None)"
    then have "\<forall>ch \<in> set camera_channels. ?view ch = None" by blast
    from fold_views_none [of camera_channels ?view no_color, OF this] c b
    show False by simp
  qed
  from fold_views_some [of camera_channels ?view no_color, OF this] c
  obtain ch where ch: "ch \<in> set camera_channels" "?view ch = Some (col ! j)" by auto
  then obtain cam_coloring cam_mask where
    "camera_view g fs sample tok ch = Inr (cam_coloring, cam_mask)"
    "j < length cam_mask" "cam_mask ! j"
    by (auto simp: color_in_view_def split: sum.splits if_splits)
  with ch show "\<exists>ch cam_coloring cam_mask. ch \<in> set camera_channels \<and>
         camera_view g fs sample tok ch = Inr (cam_coloring, cam_mask) \<and>
         j < length cam_mask \<and> cam_mask ! j \<and>
         color_in_view (camera_view g fs sample tok ch) j = Some (col ! j)"
    by blast
qed

lemma demo_color_points:
  "color_points (plain_image 4 (128, 64, 32))
     \<lparr>cs_rotation = (1, 0, 0, 0), cs_translation = (0, 0, 0),
       camera_intrinsic = Some ((1, 0, 0), (0, 1, 0), (0, 0, 1))\<rparr>
     \<lparr>ep_rotation = (1, 0, 0, 0), ep_translation = (100, 200, 0)\<rparr>
     \<lparr>ep_rotation = (1, 0, 0, 0), ep_translation = (100, 200, 0)\<rparr>
     \<lparr>cs_rotation = (1, 0, 0, 0), cs_translation = (0, 0, 0),
       camera_intrinsic = Some ((1, 0, 0), (0, 1, 0), (0, 0, 1))\<rparr>
     demo_cloud = Inr ([(128, 64, 32), (128, 64, 32)], [True, False, True])"
  by (simp add: picture_defs demo_cloud_def plain_image_def intrinsic_def)

lemma demo_camera_point:
  "xyz (to_camera_frame
     \<lparr>cs_rotation = (1, 0, 0, 0), cs_translation = (0, 0, 0),
       camera_intrinsic = Some ((1, 0, 0), (0, 1, 0), (0, 0, 1))\<rparr>
     \<lparr>ep_rotation = (1, 0, 0, 0), ep_translation = (100, 200, 0)\<rparr>
     \<lparr>ep_rotation = (1, 0, 0, 0), ep_translation = (100, 200, 0)\<rparr>
     \<lparr>cs_rotation = (1, 0, 0, 0), cs_translation = (0, 0, 0),
       camera_intrinsic = Some ((1, 0, 0), (0, 1, 0), (0, 0, 1))\<rparr>
     demo_cloud ! 0) = (10, 10, 5)"
  "view_point ((1, 0, 0), (0, 1, 0), (0, 0, 1)) True (10, 10, 5) = (2, 2, 1)"
  by (simp_all add: to_camera_frame_map demo_cloud_def view_point_def)

lemma mask_conditions_demo:
  "(length [True, False, True] = length demo_cloud \<and>
    ([True, False, True] ! 0 \<longleftrightarrow>
       (0::real) < 5 \<and> (1::real) < 2 \<and> 2 < real (size_w (plain_image 4 (128, 64, 32))) - 1 \<and>
       (1::real) < 2 \<and> 2 < real (size_h (plain_image 4 (128, 64, 32))) - 1))
   \<and> (\<exists>ch cam_coloring cam_mask. ch \<in> set camera_channels \<and>
         camera_view (Some demo_nusc) demo_files demo_sample ''lidar0'' ch =
           Inr (cam_coloring, cam_mask) \<and>
         0 < length cam_mask \<and> cam_mask ! 0 \<and>
         color_in_view (camera_view (Some demo_nusc) demo_files demo_sample ''lidar0'' ch) 0 =
           Some ([(128, 64, 32), no_color, (128, 64, 32)] ! 0))"
proof -
  have h1: "0 < length demo_cloud" by (simp add: demo_cloud_def)
  have h2: "\<not> any_minus_one ([(128, 64, 32), no_color, (128, 64, 32)] ! 0)" by simp
  from mask_conditions [of "plain_image 4 (128, 64, 32)"
      "\<lparr>cs_rotation = (1, 0, 0, 0), cs_translation = (0, 0, 0),
        camera_intrinsic = Some ((1, 0, 0), (0, 1, 0), (0, 0, 1))\<rparr>"
      "\<lparr>ep_rotation = (1, 0, 0, 0), ep_translation = (100, 200, 0)\<rparr>"
      "\<lparr>ep_rotation = (1, 0, 0, 0), ep_translation = (100, 200, 0)\<rparr>"
      "\<lparr>cs_rotation = (1, 0, 0, 0), cs_translation = (0, 0, 0),
        camera_intrinsic = Some ((1, 0, 0), (0, 1, 0), (0, 0, 1))\<rparr>"
      demo_cloud "[(128, 64, 32), (128, 64, 32)]" "[True, False, True]"
      "((1, 0, 0), (0, 1, 0), (0, 0, 1))" 0 10 10 5 2 2 1
      "Some demo_nusc" demo_files demo_sample "''lidar0''" 3
      "[(128, 64, 32), no_color, (128, 64, 32)]" 0]
    demo_color_points demo_camera_point demo_coloring h1 h2
  show ?thesis by simp
qed

text \<open>
  When the global \<^verbatim>\<open>nusc\<close> is the record store of the explorer, the cloud that a
  camera's computation loads is the cloud of the frame, and a point of the frame whose
  colour is not the sentinel met the three conditions in one of the six cameras.
\<close>

lemma same_store_written_point:
  assumes g: "g = Some (nusc ex)"
    and s: "get_sample (nusc ex) (sample_token sd_rec) = Inr sample"
    and l: "get_sample_data (nusc ex) (token sd_rec) = Inr lidar_rec"
    and f: "from_file fs (osp_join (dataroot (nusc ex)) (filename lidar_rec)) = Inr pc"
    and c: "color_from_cameras g fs sample (token sd_rec) camera_channels
           (replicate (length pc) no_color) = Inr coloring"
    and cs: "get_calibrated_sensor (nusc ex) (calibrated_sensor_token lidar_rec) = Inr cs_record"
    and ep: "get_ego_pose (nusc ex) (ego_pose_token lidar_rec) = Inr poserecord"
    and i: "i < length pc" and v: "\<not> any_minus_one (coloring ! i)"
  shows "\<exists>ch camera_token cam im ego_dst cs_dst K.
    ch \<in> set camera_channels \<and> data sample ch = Some camera_token \<and>
    get_sample_data (nusc ex) camera_token = Inr cam \<and>
    image_open fs (osp_join (dataroot (nusc ex)) (filename cam)) = Inr im \<and>
    get_ego_pose (nusc ex) (ego_pose_token cam) = Inr ego_dst \<and>
    get_calibrated_sensor (nusc ex) (calibrated_sensor_token cam) = Inr cs_dst \<and>
    camera_intrinsic cs_dst = Some K \<and>
    in_picture im
      (snd (snd (xyz (to_camera_frame cs_record poserecord ego_dst cs_dst pc ! i))))
      (view_point K True (xyz (to_camera_frame cs_record poserecord ego_dst cs_dst pc ! i)))"
proof -
  have h: "color_from_cameras g fs sample (token sd_rec) camera_channels
      (replicate (length pc) no_color) = Inr coloring \<and>
      i < length pc \<and> \<not> any_minus_one (coloring ! i)"
    using c i v by simp
  from mask_conditions [THEN conjunct2, THEN mp, OF h]
  obtain ch cc cm where ch: "ch \<in> set camera_channels"
    and cv: "camera_view g fs sample (token sd_rec) ch = Inr (cc, cm)"
    and m: "i < length cm" "cm ! i"
    by blast
  from cv obtain camera_token where
    t: "lookup (data sample) ch = Inr camera_token"
    and p: "pointcloud_color_from_image (nusc ex) fs (token sd_rec) camera_token = Inr (cc, cm)"
    by (auto simp: camera_view_def g global_nusc_def bindE_eq_Inr)
  from t have d: "data sample ch = Some camera_token"
    by (auto simp: lookup_def split: option.splits)
  from pcfi_fetched [OF p] obtain cam pointsensor pc0 im cs_src ego_src ego_dst cs_dst where
    fc: "get_sample_data (nusc ex) camera_token = Inr cam"
      "image_open fs (osp_join (dataroot (nusc ex)) (filename cam)) = Inr im"
      "get_ego_pose (nusc ex) (ego_pose_token cam) = Inr ego_dst"
      "get_calibrated_sensor (nusc ex) (calibrated_sensor_token cam) = Inr cs_dst"
    and fp: "get_sample_data (nusc ex) (token sd_rec) = Inr pointsensor"
      "from_file fs (osp_join (dataroot (nusc ex)) (filename pointsensor)) = Inr pc0"
      "get_calibrated_sensor (nusc ex) (calibrated_sensor_token pointsensor) = Inr cs_src"
      "get_ego_pose (nusc ex) (ego_pose_token pointsensor) = Inr ego_src"
    and cp: "color_points im cs_src ego_src ego_dst cs_dst pc0 = Inr (cc, cm)"
    by blast
  from fp(1) l have "pointsensor = lidar_rec" by simp
  with fp f cs ep have e: "pc0 = pc" "cs_src = cs_record" "ego_src = poserecord" by simp_all
  from color_points_frame [OF cp] obtain K where K: "camera_intrinsic cs_dst = Some K"
    and cm: "cm = map (\<lambda>p. in_picture im (snd (snd (xyz p))) (view_point K True (xyz p)))
           (to_camera_frame cs_record poserecord ego_dst cs_dst pc)"
    unfolding e by blast
  have "i < length (to_camera_frame cs_record poserecord ego_dst cs_dst pc)" using i by simp
  with m(2) have "in_picture im
      (snd (snd (xyz (to_camera_frame cs_record poserecord ego_dst cs_dst pc ! i))))
      (view_point K True (xyz (to_camera_frame cs_record poserecord ego_dst cs_dst pc ! i)))"
    unfolding cm by simp
  with ch d fc K show ?thesis by blast
qed

lemma off_records:
  "get_sample (nusc off_explorer) (sample_token (demo_sd ''lidar0'' ''cloud.bin'' [])) =
     Inr demo_sample"
  "get_sample_data (nusc off_explorer) (token (demo_sd ''lidar0'' ''cloud.bin'' [])) =
     Inr (demo_sd ''lidar0'' ''cloud.bin'' [])"
  "from_file demo_files (osp_join (dataroot (nusc off_explorer))
     (filename (demo_sd ''lidar0'' ''cloud.bin'' []))) = Inr off_cloud"
  "get_calibrated_sensor (nusc off_explorer)
     (calibrated_sensor_token (demo_sd ''lidar0'' ''cloud.bin'' [])) =
     Inr \<lparr>cs_rotation = (1, 0, 0, 0), cs_translation = (0, 0, 0),
       camera_intrinsic = Some ((1, 0, 0), (0, 1, 0), (0, 0, 1))\<rparr>"
  "get_ego_pose (nusc off_explorer) (ego_pose_token (demo_sd ''lidar0'' ''cloud.bin'' [])) =
     Inr \<lparr>ep_rotation = (1, 0, 0, 0), ep_translation = (100, 200, 0)\<rparr>"
  "first_sd_rec off_explorer ''scene0'' ''LIDAR_TOP'' = Inr (demo_sd ''lidar0'' ''cloud.bin'' [])"
  by (simp_all add: off_explorer_def first_sd_rec_def demo_defs fetch_defs)

lemma off_line:
  "vertex_line (100, 200, 5) (128, 64, 32) =
     ''v 100.00000000 200.00000000 5.00000000 0.5020 0.2510 0.1255'' @ newline"
  by (simp add: format_defs)

lemma off_frame:
  "process_frame off_explorer (Some demo_nusc) demo_files 3 30 (demo_sd ''lidar0'' ''cloud.bin'' []) =
     Inr (''v 100.00000000 200.00000000 5.00000000 0.5020 0.2510 0.1255'' @ newline)"
proof -
  have c: "color_from_cameras (Some demo_nusc) demo_files demo_sample
      (token (demo_sd ''lidar0'' ''cloud.bin'' [])) camera_channels
      (replicate (length off_cloud) no_color) = Inr [(128, 64, 32), no_color, (128, 64, 32)]"
    using demo_coloring by (simp add: demo_sd_def off_cloud_def numeral_3_eq_3)
  have d: "dist_origin (0, 0, 1) = 1" by simp
  show ?thesis
    unfolding process_frame_Inr [OF off_records(1,2,3) c off_records(4,5)]
    by (simp add: off_cloud_def demo_dists d off_line no_color_def Let_def
        del: dist_origin.simps vertex_line.simps)
qed

lemma off_export:
  "export_scene_pointcloud off_explorer (Some demo_nusc) demo_files ''scene0'' ''LIDAR_TOP'' 3 30 =
     Some \<lparr>raised = None,
       out_file = Some (''OBJ File:'' @ newline @
         ''v 100.00000000 200.00000000 5.00000000 0.5020 0.2510 0.1255'' @ newline),
       frame_ind = 1\<rparr>"
  by (simp add: export_scene_pointcloud_def valid_channels_def off_records(6) frame_loop.simps
      off_frame) (simp add: demo_sd_def)

text \<open>
  C2. The spec has the mask of a camera true exactly under the three conditions, and
  concludes that every point written met the three conditions in the camera whose colour
  it carries. The code breaks the conclusion: the colours are computed on the cloud that
  the global
  \<^verbatim>\<open>nusc\<close> names (line 58, through line 107), the points written are those of the
  cloud that the explorer names (line 52). With the explorer on the data root \<open>off\<close>
  and the global on the data root \<open>root\<close>, the call writes the first point of the
  explorer's cloud with the colour of the front-right camera. That point lies at
  (0, 0, 5) in the frame of each camera, projects to (0, 0) and is in no picture, whatever
  the image.
\<close>

theorem written_point_outside_every_picture:
  "export_scene_pointcloud off_explorer (Some demo_nusc) demo_files ''scene0'' ''LIDAR_TOP'' 3 30 =
     Some \<lparr>raised = None,
       out_file = Some (''OBJ File:'' @ newline @
         ''v 100.00000000 200.00000000 5.00000000 0.5020 0.2510 0.1255'' @ newline),
       frame_ind = 1\<rparr>
   \<and> from_file demo_files (osp_join (dataroot (nusc off_explorer))
         (filename (demo_sd ''lidar0'' ''cloud.bin'' []))) = Inr off_cloud
   \<and> off_cloud ! 0 = \<lparr>xyz = (0, 0, 5), aux = [1]\<rparr>
   \<and> to_global \<lparr>ep_rotation = (1, 0, 0, 0), ep_translation = (100, 200, 0)\<rparr>
        (to_ego \<lparr>cs_rotation = (1, 0, 0, 0), cs_translation = (0, 0, 0),
           camera_intrinsic = Some ((1, 0, 0), (0, 1, 0), (0, 0, 1))\<rparr> (0, 0, 5)) = (100, 200, 5)
   \<and> xyz (to_camera_frame
        \<lparr>cs_rotation = (1, 0, 0, 0), cs_translation = (0, 0, 0),
          camera_intrinsic = Some ((1, 0, 0), (0, 1, 0), (0, 0, 1))\<rparr>
        \<lparr>ep_rotation = (1, 0, 0, 0), ep_translation = (100, 200, 0)\<rparr>
        \<lparr>ep_rotation = (1, 0, 0, 0), ep_translation = (100, 200, 0)\<rparr>
        \<lparr>cs_rotation = (1, 0, 0, 0), cs_translation = (0, 0, 0),
          camera_intrinsic = Some ((1, 0, 0), (0, 1, 0), (0, 0, 1))\<rparr>
        off_cloud ! 0) = (0, 0, 5)
   \<and> view_point ((1, 0, 0), (0, 1, 0), (0, 0, 1)) True (0, 0, 5) = (0, 0, 1)
   \<and> (\<forall>im. \<not> in_picture im 5 (0, 0, 1))"
proof (intro conjI)
  show "export_scene_pointcloud off_explorer (Some demo_nusc) demo_files ''scene0''
      ''LIDAR_TOP'' 3 30 =
     Some \<lparr>raised = None,
       out_file = Some (''OBJ File:'' @ newline @
         ''v 100.00000000 200.00000000 5.00000000 0.5020 0.2510 0.1255'' @ newline),
       frame_ind = 1\<rparr>"
    by (rule off_export)
  show "from_file demo_files (osp_join (dataroot (nusc off_explorer))
         (filename (demo_sd ''lidar0'' ''cloud.bin'' []))) = Inr off_cloud"
    by (rule off_records(3))
  show "off_cloud ! 0 = \<lparr>xyz = (0, 0, 5), aux = [1]\<rparr>" by (simp add: off_cloud_def)
  show "to_global \<lparr>ep_rotation = (1, 0, 0, 0), ep_translation = (100, 200, 0)\<rparr>
        (to_ego \<lparr>cs_rotation = (1, 0, 0, 0), cs_translation = (0, 0, 0),
           camera_intrinsic = Some ((1, 0, 0), (0, 1, 0), (0, 0, 1))\<rparr> (0, 0, 5)) = (100, 200, 5)"
    by (simp add: to_global_def to_ego_def)
  show "xyz (to_camera_frame
        \<lparr>cs_rotation = (1, 0, 0, 0), cs_translation = (0, 0, 0),
          camera_intrinsic = Some ((1, 0, 0), (0, 1, 0), (0, 0, 1))\<rparr>
        \<lparr>ep_rotation = (1, 0, 0, 0), ep_translation = (100, 200, 0)\<rparr>
        \<lparr>ep_rotation = (1, 0, 0, 0), ep_translation = (100, 200, 0)\<rparr>
        \<lparr>cs_rotation = (1, 0, 0, 0), cs_translation = (0, 0, 0),
          camera_intrinsic = Some ((1, 0, 0), (0, 1, 0), (0, 0, 1))\<rparr>
        off_cloud ! 0) = (0, 0, 5)"
    by (simp add: to_camera_frame_map off_cloud_def)
  show "view_point ((1, 0, 0), (0, 1, 0), (0, 0, 1)) True (0, 0, 5) = (0, 0, 1)"
    by (simp add: view_point_def)
  show "\<forall>im. \<not> in_picture im 5 (0, 0, 1)" by simp
qed


text \<open>
  C3. When several of the six cameras select a point, the colour it ends with is that of
  the last of them in the order front-left, front, front-right, back-left, back,
  back-right: a later camera overwrites an earlier one wherever its mask is true. A point
  selected by the front and by the front-right camera, and by none of the three back
  cameras after them, ends with the colour of the front-right camera.
\<close>

theorem last_camera_wins:
  assumes "color_from_cameras g fs sample tok camera_channels col0 = Inr col"
    and "i < length col0"
  shows "(camera_channels = pre @ ch # post \<and>
      color_in_view (camera_view g fs sample tok ch) i = Some c \<and>
      (\<forall>ch' \<in> set post. color_in_view (camera_view g fs sample tok ch') i = None) \<longrightarrow>
        col ! i = c)
    \<and> (color_in_view (camera_view g fs sample tok ''CAM_FRONT'') i = Some c1 \<and>
       color_in_view (camera_view g fs sample tok ''CAM_FRONT_RIGHT'') i = Some c2 \<and>
       (\<forall>ch' \<in> {''CAM_BACK_LEFT'', ''CAM_BACK'', ''CAM_BACK_RIGHT''}.
          color_in_view (camera_view g fs sample tok ch') i = None) \<longrightarrow>
        col ! i = c2)
    \<and> camera_channels = [''CAM_FRONT_LEFT'', ''CAM_FRONT'', ''CAM_FRONT_RIGHT'',
         ''CAM_BACK_LEFT'', ''CAM_BACK'', ''CAM_BACK_RIGHT'']"
proof -
  let ?view = "\<lambda>ch. color_in_view (camera_view g fs sample tok ch) i"
  let ?step = "\<lambda>acc ch. case ?view ch of None \<Rightarrow> acc | Some c \<Rightarrow> c"
  from color_from_cameras_fold [OF assms(1)] assms(2)
  have col: "col ! i = foldl ?step (col0 ! i) camera_channels" by simp
  have last: "col ! i = c'" if "camera_channels = pre' @ ch' # post'" "?view ch' = Some c'"
    "\<forall>x \<in> set post'. ?view x = None" for pre' ch' post' c'
    using that col fold_views_last [of ?view ch' c' post' "col0 ! i" pre'] by simp
  have split: "camera_channels =
      [''CAM_FRONT_LEFT'', ''CAM_FRONT''] @ ''CAM_FRONT_RIGHT'' #
      [''CAM_BACK_LEFT'', ''CAM_BACK'', ''CAM_BACK_RIGHT'']"
    by (simp add: camera_channels_def)
  show ?thesis
  proof (intro conjI impI)
    assume "camera_channels = pre @ ch # post \<and> ?view ch = Some c \<and>
      (\<forall>ch' \<in> set post. ?view ch' = None)"
    then show "col ! i = c" using last by blast
  next
    assume "?view ''CAM_FRONT'' = Some c1 \<and> ?view ''CAM_FRONT_RIGHT'' = Some c2 \<and>
       (\<forall>ch' \<in> {''CAM_BACK_LEFT'', ''CAM_BACK'', ''CAM_BACK_RIGHT''}. ?view ch' = None)"
    then have "?view ''CAM_FRONT_RIGHT'' = Some c2"
      and "\<forall>x \<in> set [''CAM_BACK_LEFT'', ''CAM_BACK'', ''CAM_BACK_RIGHT'']. ?view x = None"
      by simp_all
    with last [OF split] show "col ! i = c2" by blast
  next
    show "camera_channels = [''CAM_FRONT_LEFT'', ''CAM_FRONT'', ''CAM_FRONT_RIGHT'',
         ''CAM_BACK_LEFT'', ''CAM_BACK'', ''CAM_BACK_RIGHT'']"
      by (simp add: camera_channels_def)
  qed
qed

lemma demo_in_view:
  "color_in_view (camera_view (Some demo_nusc) demo_files demo_sample ''lidar0'' ''CAM_FRONT'') 0 =
     Some (10, 20, 30)"
  "color_in_view (camera_view (Some demo_nusc) demo_files demo_sample ''lidar0''
     ''CAM_FRONT_RIGHT'') 0 = Some (128, 64, 32)"
  "\<forall>ch' \<in> {''CAM_BACK_LEFT'', ''CAM_BACK'', ''CAM_BACK_RIGHT''}.
     color_in_view (camera_view (Some demo_nusc) demo_files demo_sample ''lidar0'' ch') 0 = None"
  "\<forall>ch' \<in> set camera_channels.
     color_in_view (camera_view (Some demo_nusc) demo_files demo_sample ''lidar0'' ch') 1 = None"
  by (simp_all add: demo_front demo_right demo_blind color_in_view_def camera_channels_def)

theorem last_camera_wins_witness:
  "[(128, 64, 32), no_color, (128, 64, 32)] ! 0 = ((128, 64, 32) :: color) \<and>
   camera_channels = [''CAM_FRONT_LEFT'', ''CAM_FRONT'', ''CAM_FRONT_RIGHT'',
         ''CAM_BACK_LEFT'', ''CAM_BACK'', ''CAM_BACK_RIGHT'']"
proof -
  have h: "0 < length (replicate 3 no_color)" by simp
  have s: "camera_channels = [''CAM_FRONT_LEFT'', ''CAM_FRONT''] @ ''CAM_FRONT_RIGHT'' #
      [''CAM_BACK_LEFT'', ''CAM_BACK'', ''CAM_BACK_RIGHT'']"
    by (simp add: camera_channels_def)
  have p: "\<forall>ch' \<in> set [''CAM_BACK_LEFT'', ''CAM_BACK'', ''CAM_BACK_RIGHT''].
     color_in_view (camera_view (Some demo_nusc) demo_files demo_sample ''lidar0'' ch') 0 = None"
    using demo_in_view(3) by simp
  from last_camera_wins [OF demo_coloring h,
      of "[''CAM_FRONT_LEFT'', ''CAM_FRONT'']" "''CAM_FRONT_RIGHT''"
        "[''CAM_BACK_LEFT'', ''CAM_BACK'', ''CAM_BACK_RIGHT'']" "(128, 64, 32)"
        "(10, 20, 30)" "(128, 64, 32)"]
    s p demo_in_view(1,2,3)
  show ?thesis by blast
qed

text \<open>
  C4. In every frame the distance filter works on the coordinates in the ego frame, after
  the transform by the calibration of the sensor and before the transform by the ego
  pose: a point is kept exactly when its Euclidean distance from the origin of the ego
  frame lies in the closed interval from \<open>min_dist\<close> to \<open>max_dist\<close> (3 and 30 when
  the caller gives none). Only the points kept are taken to the global frame and
  considered for writing, and what is written are their global coordinates.
\<close>

theorem distance_filter_in_ego_frame:
  assumes "get_sample (nusc ex) (sample_token sd_rec) = Inr sample"
    and "get_sample_data (nusc ex) (token sd_rec) = Inr lidar_rec"
    and "from_file fs (osp_join (dataroot (nusc ex)) (filename lidar_rec)) = Inr pc"
    and "color_from_cameras g fs sample (token sd_rec) camera_channels
           (replicate (length pc) no_color) = Inr coloring"
    and "get_calibrated_sensor (nusc ex) (calibrated_sensor_token lidar_rec) = Inr cs_record"
    and "get_ego_pose (nusc ex) (ego_pose_token lidar_rec) = Inr poserecord"
  shows "process_frame ex g fs min_dist max_dist sd_rec =
    Inr (concat (map (\<lambda>(p, c).
      let e = vadd (mat_vec (rotation_matrix (cs_rotation cs_record)) (xyz p))
                (cs_translation cs_record)
      in if min_dist \<le> dist_origin e \<and> dist_origin e \<le> max_dist \<and> \<not> any_minus_one c
         then vertex_line
                (vadd (mat_vec (rotation_matrix (ep_rotation poserecord)) e)
                   (ep_translation poserecord)) c
         else []) (zip pc coloring)))
    \<and> default_min_dist = 3 \<and> default_max_dist = 30"
  using process_frame_Inr [OF assms] by (simp add: default_min_dist_def default_max_dist_def)

theorem distance_filter_in_ego_frame_witness:
  "process_frame demo_explorer (Some demo_nusc) demo_files default_min_dist default_max_dist
     (demo_sd ''lidar0'' ''cloud.bin'' []) =
    Inr (concat (map (\<lambda>(p, c).
      let e = vadd (mat_vec (rotation_matrix (1, 0, 0, 0)) (xyz p)) (0, 0, 0)
      in if default_min_dist \<le> dist_origin e \<and> dist_origin e \<le> default_max_dist
            \<and> \<not> any_minus_one c
         then vertex_line (vadd (mat_vec (rotation_matrix (1, 0, 0, 0)) e) (100, 200, 0)) c
         else []) (zip demo_cloud [(128, 64, 32), no_color, (128, 64, 32)])))
    \<and> default_min_dist = 3 \<and> default_max_dist = 30"
proof -
  have s: "get_sample (nusc demo_explorer) (sample_token (demo_sd ''lidar0'' ''cloud.bin'' [])) =
      Inr demo_sample"
    by (simp add: demo_explorer_def demo_records demo_sd_fields)
  have l: "get_sample_data (nusc demo_explorer) (token (demo_sd ''lidar0'' ''cloud.bin'' [])) =
      Inr (demo_sd ''lidar0'' ''cloud.bin'' [])"
    by (simp add: demo_explorer_def demo_sample_data demo_sd_fields)
  have f: "from_file demo_files (osp_join (dataroot (nusc demo_explorer))
      (filename (demo_sd ''lidar0'' ''cloud.bin'' []))) = Inr demo_cloud"
    by (simp add: demo_explorer_def demo_nusc_def demo_sd_def demo_files_def fetch_defs)
  have c: "color_from_cameras (Some demo_nusc) demo_files demo_sample
      (token (demo_sd ''lidar0'' ''cloud.bin'' [])) camera_channels
      (replicate (length demo_cloud) no_color) = Inr [(128, 64, 32), no_color, (128, 64, 32)]"
    using demo_coloring by (simp add: demo_sd_def demo_cloud_def numeral_3_eq_3)
  have cs: "get_calibrated_sensor (nusc demo_explorer)
      (calibrated_sensor_token (demo_sd ''lidar0'' ''cloud.bin'' [])) =
      Inr \<lparr>cs_rotation = (1, 0, 0, 0), cs_translation = (0, 0, 0),
       camera_intrinsic = Some ((1, 0, 0), (0, 1, 0), (0, 0, 1))\<rparr>"
    by (simp add: demo_explorer_def demo_records demo_sd_fields)
  have ep: "get_ego_pose (nusc demo_explorer)
      (ego_pose_token (demo_sd ''lidar0'' ''cloud.bin'' [])) =
      Inr \<lparr>ep_rotation = (1, 0, 0, 0), ep_translation = (100, 200, 0)\<rparr>"
    by (simp add: demo_explorer_def demo_records demo_sd_fields)
  from distance_filter_in_ego_frame [OF s l f c cs ep, of default_min_dist default_max_dist]
  show ?thesis
    by (simp only: calibrated_sensor_rec.select_convs ego_pose_rec.select_convs)
qed


text \<open>
  C5. The traversal of a scene processes the records reached by following non-empty
  \<^verbatim>\<open>next\<close> links from the record of the primary channel in the first sample and
  stops when a link is empty. When the chain of links from that record is finite, ending
  in an empty link or in a link that names no record, the call returns; when in addition
  every frame is processed without an error, a chain of k records that ends in an empty
  link makes exactly k frames, in the order of the chain, and a chain that ends in a link
  that names no record raises the missing-record error of the record store after the
  frame of the record that holds the link.
\<close>

theorem scene_traversal:
  assumes "channel \<in> set valid_channels"
    and "first_sd_rec ex scene_token channel = Inr r"
    and "linked (nusc ex) r rs"
  shows "(sd_next (last (r # rs)) = [] \<or>
       sample_data_table (nusc ex) (sd_next (last (r # rs))) = None \<longrightarrow>
      (\<exists>out. export_scene_pointcloud ex g fs scene_token channel min_dist max_dist = Some out))
    \<and> (sd_next (last (r # rs)) = [] \<and>
       (\<forall>x \<in> set (r # rs). \<exists>w. process_frame ex g fs min_dist max_dist x = Inr w) \<longrightarrow>
       export_scene_pointcloud ex g fs scene_token channel min_dist max_dist =
         Some \<lparr>raised = None,
               out_file = Some (''OBJ File:'' @ newline @
                 concat (map (frame_text ex g fs min_dist max_dist) (r # rs))),
               frame_ind = length (r # rs)\<rparr>)
    \<and> (sd_next (last (r # rs)) \<noteq> [] \<and>
       sample_data_table (nusc ex) (sd_next (last (r # rs))) = None \<and>
       (\<forall>x \<in> set (r # rs). \<exists>w. process_frame ex g fs min_dist max_dist x = Inr w) \<longrightarrow>
       export_scene_pointcloud ex g fs scene_token channel min_dist max_dist =
         Some \<lparr>raised = Some (KeyError (sd_next (last (r # rs)))),
               out_file = Some (''OBJ File:'' @ newline @
                 concat (map (frame_text ex g fs min_dist max_dist) (r # rs))),
               frame_ind = length rs\<rparr>)"
proof -
  have e: "export_scene_pointcloud ex g fs scene_token channel min_dist max_dist =
      frame_loop ex g fs min_dist max_dist r (''OBJ File:'' @ newline) 0"
    using assms(1,2) by (simp add: export_scene_pointcloud_def)
  show ?thesis
  proof (intro conjI impI)
    assume "sd_next (last (r # rs)) = [] \<or>
       sample_data_table (nusc ex) (sd_next (last (r # rs))) = None"
    from linked_terminates [OF assms(3) this]
    show "\<exists>out. export_scene_pointcloud ex g fs scene_token channel min_dist max_dist = Some out"
      unfolding e .
  next
    assume a: "sd_next (last (r # rs)) = [] \<and>
       (\<forall>x \<in> set (r # rs). \<exists>w. process_frame ex g fs min_dist max_dist x = Inr w)"
    then have a1: "sd_next (last (r # rs)) = []"
      and a2: "\<forall>x \<in> set (r # rs). \<exists>w. process_frame ex g fs min_dist max_dist x = Inr w"
      by blast+
    from linked_frames [OF assms(3) a1 a2, of "''OBJ File:'' @ newline" 0]
    show "export_scene_pointcloud ex g fs scene_token channel min_dist max_dist =
         Some \<lparr>raised = None,
               out_file = Some (''OBJ File:'' @ newline @
                 concat (map (frame_text ex g fs min_dist max_dist) (r # rs))),
               frame_ind = length (r # rs)\<rparr>"
      unfolding e by simp
  next
    assume a: "sd_next (last (r # rs)) \<noteq> [] \<and>
       sample_data_table (nusc ex) (sd_next (last (r # rs))) = None \<and>
       (\<forall>x \<in> set (r # rs). \<exists>w. process_frame ex g fs min_dist max_dist x = Inr w)"
    then have a1: "sd_next (last (r # rs)) \<noteq> []"
      and a2: "sample_data_table (nusc ex) (sd_next (last (r # rs))) = None"
      and a3: "\<forall>x \<in> set (r # rs). \<exists>w. process_frame ex g fs min_dist max_dist x = Inr w"
      by blast+
    from linked_dangling [OF assms(3) a1 a2 a3, of "''OBJ File:'' @ newline" 0]
    show "export_scene_pointcloud ex g fs scene_token channel min_dist max_dist =
         Some \<lparr>raised = Some (KeyError (sd_next (last (r # rs)))),
               out_file = Some (''OBJ File:'' @ newline @
                 concat (map (frame_text ex g fs min_dist max_dist) (r # rs))),
               frame_ind = length rs\<rparr>"
      unfolding e by simp
  qed
qed

lemma demo_chain:
  "linked (nusc demo_explorer) (demo_sd ''a'' ''empty.bin'' ''b'')
     [demo_sd ''b'' ''empty.bin'' ''c'', demo_sd ''c'' ''empty.bin'' []]"
  "linked (nusc demo_explorer) (demo_sd ''x'' ''empty.bin'' ''missing'') []"
  by (simp_all add: demo_explorer_def demo_sample_data demo_sd_fields)

lemma demo_chain_frames:
  "\<forall>x \<in> set [demo_sd ''a'' ''empty.bin'' ''b'', demo_sd ''b'' ''empty.bin'' ''c'',
      demo_sd ''c'' ''empty.bin'' []].
     \<exists>w. process_frame demo_explorer (Some demo_nusc) demo_files 3 30 x = Inr w"
  "\<forall>x \<in> set [demo_sd ''x'' ''empty.bin'' ''missing''].
     \<exists>w. process_frame demo_explorer (Some demo_nusc) demo_files 3 30 x = Inr w"
  by (simp_all add: empty_frame)

theorem scene_traversal_witness:
  "(\<exists>out. export_scene_pointcloud demo_explorer (Some demo_nusc) demo_files ''scene0''
      ''RADAR_FRONT'' 3 30 = Some out)
   \<and> export_scene_pointcloud demo_explorer (Some demo_nusc) demo_files ''scene0''
      ''RADAR_FRONT'' 3 30 =
       Some \<lparr>raised = None,
         out_file = Some (''OBJ File:'' @ newline @
           concat (map (frame_text demo_explorer (Some demo_nusc) demo_files 3 30)
             [demo_sd ''a'' ''empty.bin'' ''b'', demo_sd ''b'' ''empty.bin'' ''c'',
              demo_sd ''c'' ''empty.bin'' []])),
         frame_ind = 3\<rparr>
   \<and> export_scene_pointcloud demo_explorer (Some demo_nusc) demo_files ''scene0''
      ''RADAR_FRONT_LEFT'' 3 30 =
       Some \<lparr>raised = Some (KeyError ''missing''),
         out_file = Some (''OBJ File:'' @ newline @
           concat (map (frame_text demo_explorer (Some demo_nusc) demo_files 3 30)
             [demo_sd ''x'' ''empty.bin'' ''missing''])),
         frame_ind = 0\<rparr>"
proof -
  have v: "''RADAR_FRONT'' \<in> set valid_channels" "''RADAR_FRONT_LEFT'' \<in> set valid_channels"
    by (simp_all add: valid_channels_def)
  have m: "sample_data_table (nusc demo_explorer) ''missing'' = None"
    by (simp add: demo_explorer_def demo_sample_data)
  from scene_traversal [OF v(1) demo_first(2) demo_chain(1), of "Some demo_nusc" demo_files 3 30]
    scene_traversal [OF v(2) demo_first(3) demo_chain(2), of "Some demo_nusc" demo_files 3 30]
    demo_chain_frames m
  show ?thesis by (simp add: demo_sd_fields)
qed


text \<open>
  C6. When the points of a frame are written, a point that no camera selected still has
  the sentinel colour and is skipped, which is no error; a point that some camera selected
  has a colour without a sentinel entry and is written. No point with a sentinel entry in
  its colour reaches the file.
\<close>

theorem uncoloured_points_skipped:
  assumes "color_from_cameras g fs sample tok camera_channels (replicate m no_color) = Inr coloring"
    and "i < m"
  shows "((\<forall>ch \<in> set camera_channels. color_in_view (camera_view g fs sample tok ch) i = None) \<longrightarrow>
      coloring ! i = no_color \<and>
      write_points (pre @ (p, coloring ! i) # post) = write_points pre @ write_points post)
    \<and> ((\<exists>ch \<in> set camera_channels. color_in_view (camera_view g fs sample tok ch) i \<noteq> None) \<longrightarrow>
      \<not> any_minus_one (coloring ! i) \<and>
      write_points (pre @ (p, coloring ! i) # post) =
        write_points pre @ vertex_line (xyz p) (coloring ! i) @ write_points post)
    \<and> write_points xs =
        concat (map (\<lambda>(v, c). vertex_line (xyz v) c) (filter (\<lambda>(v, c). \<not> any_minus_one c) xs))"
proof -
  let ?view = "\<lambda>ch. color_in_view (camera_view g fs sample tok ch) i"
  let ?step = "\<lambda>acc ch. case ?view ch of None \<Rightarrow> acc | Some c \<Rightarrow> c"
  from color_from_cameras_fold [OF assms(1)] assms(2)
  have col: "coloring ! i = foldl ?step no_color camera_channels" by simp
  show ?thesis
  proof (intro conjI impI)
    assume "\<forall>ch \<in> set camera_channels. ?view ch = None"
    from fold_views_none [of camera_channels ?view no_color, OF this] col
    show n: "coloring ! i = no_color" by simp
    show "write_points (pre @ (p, coloring ! i) # post) = write_points pre @ write_points post"
      by (simp add: write_points_append n)
  next
    assume "\<exists>ch \<in> set camera_channels. ?view ch \<noteq> None"
    from fold_views_some [of camera_channels ?view no_color, OF this] col
    obtain ch where "?view ch = Some (coloring ! i)" by auto
    from color_in_view_rgb [OF this] obtain px where px: "coloring ! i = rgb_to_float px" ..
    then show v: "\<not> any_minus_one (coloring ! i)" by simp
    show "write_points (pre @ (p, coloring ! i) # post) =
        write_points pre @ vertex_line (xyz p) (coloring ! i) @ write_points post"
      using v by (simp add: write_points_append)
  next
    show "write_points xs =
        concat (map (\<lambda>(v, c). vertex_line (xyz v) c) (filter (\<lambda>(v, c). \<not> any_minus_one c) xs))"
      by (induction xs rule: write_points.induct) simp_all
  qed
qed

theorem uncoloured_points_skipped_witness:
  "([(128, 64, 32), no_color, (128, 64, 32)] ! 1 = no_color \<and>
    write_points ([] @ (\<lparr>xyz = (100, 200, 5), aux = [1]\<rparr>,
        [(128, 64, 32), no_color, (128, 64, 32)] ! 1) # []) =
      write_points [] @ write_points [])
   \<and> (\<not> any_minus_one ([(128, 64, 32), no_color, (128, 64, 32)] ! 0) \<and>
    write_points ([] @ (\<lparr>xyz = (110, 210, 5), aux = [1]\<rparr>,
        [(128, 64, 32), no_color, (128, 64, 32)] ! 0) # []) =
      write_points [] @ vertex_line (xyz \<lparr>xyz = (110, 210, 5), aux = [1]\<rparr>)
        ([(128, 64, 32), no_color, (128, 64, 32)] ! 0) @ write_points [])"
proof -
  have i: "(1::nat) < 3" "(0::nat) < 3" by simp_all
  have seen: "\<exists>ch \<in> set camera_channels.
      color_in_view (camera_view (Some demo_nusc) demo_files demo_sample ''lidar0'' ch) 0 \<noteq> None"
    using demo_in_view(2) by (auto simp: camera_channels_def)
  from uncoloured_points_skipped [OF demo_coloring i(1),
      of "[]" "\<lparr>xyz = (100, 200, 5), aux = [1]\<rparr>" "[]"]
    uncoloured_points_skipped [OF demo_coloring i(2),
      of "[]" "\<lparr>xyz = (110, 210, 5), aux = [1]\<rparr>" "[]"]
    demo_in_view(4) seen
  show ?thesis by blast
qed

text \<open>
  C7. A primary channel that is not one of the six range-sensor channels makes
  \<^verbatim>\<open>export_scene_pointcloud\<close> fail at once with an error that names the channel:
  no record is fetched, the file is not opened and no frame is processed, whatever the
  record store, the global and the files are. For a channel of the set the check passes:
  the call goes on to fetch the records and never ends with that error.
\<close>

theorem invalid_channel_rejected:
  "(channel \<notin> set valid_channels \<longrightarrow>
      export_scene_pointcloud ex g fs scene_token channel min_dist max_dist =
        Some \<lparr>raised = Some (AssertionError (''Input channel '' @ channel @ '' not valid.'')),
              out_file = None, frame_ind = 0\<rparr>)
   \<and> (channel \<in> set valid_channels \<longrightarrow>
      export_scene_pointcloud ex g fs scene_token channel min_dist max_dist =
        (case first_sd_rec ex scene_token channel of
           Inl e \<Rightarrow> Some \<lparr>raised = Some e, out_file = None, frame_ind = 0\<rparr>
         | Inr sd_rec \<Rightarrow>
             frame_loop ex g fs min_dist max_dist sd_rec (''OBJ File:'' @ newline) 0)
      \<and> (export_scene_pointcloud ex g fs scene_token channel min_dist max_dist = Some out \<and>
           raised out = Some e \<longrightarrow> \<not> is_assertion e))
   \<and> valid_channels = [''LIDAR_TOP'', ''RADAR_FRONT'', ''RADAR_FRONT_RIGHT'',
        ''RADAR_FRONT_LEFT'', ''RADAR_BACK_LEFT'', ''RADAR_BACK_RIGHT'']"
proof (intro conjI impI)
  assume "channel \<notin> set valid_channels"
  then show "export_scene_pointcloud ex g fs scene_token channel min_dist max_dist =
        Some \<lparr>raised = Some (AssertionError (''Input channel '' @ channel @ '' not valid.'')),
              out_file = None, frame_ind = 0\<rparr>"
    by (simp add: export_scene_pointcloud_def)
next
  assume "channel \<in> set valid_channels"
  then show "export_scene_pointcloud ex g fs scene_token channel min_dist max_dist =
        (case first_sd_rec ex scene_token channel of
           Inl e \<Rightarrow> Some \<lparr>raised = Some e, out_file = None, frame_ind = 0\<rparr>
         | Inr sd_rec \<Rightarrow>
             frame_loop ex g fs min_dist max_dist sd_rec (''OBJ File:'' @ newline) 0)"
    by (simp add: export_scene_pointcloud_def)
next
  assume v: "channel \<in> set valid_channels"
    and o: "export_scene_pointcloud ex g fs scene_token channel min_dist max_dist = Some out \<and>
           raised out = Some e"
  show "\<not> is_assertion e"
  proof (cases "first_sd_rec ex scene_token channel")
    case (Inl e')
    with v o have "e = e'" by (auto simp: export_scene_pointcloud_def)
    with first_sd_rec_no_assertion [OF Inl] show ?thesis by simp
  next
    case (Inr sd_rec)
    with v o have "frame_loop ex g fs min_dist max_dist sd_rec (''OBJ File:'' @ newline) 0 = Some out"
      by (simp add: export_scene_pointcloud_def)
    from frame_loop_no_assertion [OF this] o show ?thesis by blast
  qed
next
  show "valid_channels = [''LIDAR_TOP'', ''RADAR_FRONT'', ''RADAR_FRONT_RIGHT'',
        ''RADAR_FRONT_LEFT'', ''RADAR_BACK_LEFT'', ''RADAR_BACK_RIGHT'']"
    by (simp add: valid_channels_def)
qed

lemma demo_dangling_export:
  "export_scene_pointcloud demo_explorer (Some demo_nusc) demo_files ''scene0''
      ''RADAR_FRONT_LEFT'' 3 30 =
     Some \<lparr>raised = Some (KeyError ''missing''), out_file = Some (''OBJ File:'' @ newline),
       frame_ind = 0\<rparr>"
proof -
  have v: "''RADAR_FRONT_LEFT'' \<in> set valid_channels" by (simp add: valid_channels_def)
  have m: "get_sample_data (nusc demo_explorer) ''missing'' = Inl (KeyError ''missing'')"
    by (simp add: demo_explorer_def get_sample_data_def lookup_def demo_sample_data)
  show ?thesis
    using v
    by (simp add: export_scene_pointcloud_def demo_first frame_loop.simps empty_frame
        demo_sd_fields m)
qed

theorem invalid_channel_rejected_witness:
  "export_scene_pointcloud demo_explorer (Some demo_nusc) demo_files ''scene0'' ''CAM_FRONT'' 3 30 =
     Some \<lparr>raised = Some (AssertionError (''Input channel '' @ ''CAM_FRONT'' @ '' not valid.'')),
           out_file = None, frame_ind = 0\<rparr>
   \<and> export_scene_pointcloud demo_explorer (Some demo_nusc) demo_files ''scene0''
       ''RADAR_FRONT_LEFT'' 3 30 =
      (case first_sd_rec demo_explorer ''scene0'' ''RADAR_FRONT_LEFT'' of
         Inl e \<Rightarrow> Some \<lparr>raised = Some e, out_file = None, frame_ind = 0\<rparr>
       | Inr sd_rec \<Rightarrow>
           frame_loop demo_explorer (Some demo_nusc) demo_files 3 30 sd_rec
             (''OBJ File:'' @ newline) 0)
   \<and> \<not> is_assertion (KeyError ''missing'')"
proof -
  have a: "''CAM_FRONT'' \<notin> set valid_channels" "''RADAR_FRONT_LEFT'' \<in> set valid_channels"
    by (simp_all add: valid_channels_def)
  from invalid_channel_rejected [of "''CAM_FRONT''" demo_explorer "Some demo_nusc" demo_files
      "''scene0''" 3 30] a(1)
  have 1: "export_scene_pointcloud demo_explorer (Some demo_nusc) demo_files ''scene0''
      ''CAM_FRONT'' 3 30 =
     Some \<lparr>raised = Some (AssertionError (''Input channel '' @ ''CAM_FRONT'' @ '' not valid.'')),
           out_file = None, frame_ind = 0\<rparr>" by blast
  from invalid_channel_rejected [of "''RADAR_FRONT_LEFT''" demo_explorer "Some demo_nusc"
      demo_files "''scene0''" 3 30
      "\<lparr>raised = Some (KeyError ''missing''), out_file = Some (''OBJ File:'' @ newline),
        frame_ind = 0\<rparr>" "KeyError ''missing''"] a(2) demo_dangling_export
  have 2: "export_scene_pointcloud demo_explorer (Some demo_nusc) demo_files ''scene0''
       ''RADAR_FRONT_LEFT'' 3 30 =
      (case first_sd_rec demo_explorer ''scene0'' ''RADAR_FRONT_LEFT'' of
         Inl e \<Rightarrow> Some \<lparr>raised = Some e, out_file = None, frame_ind = 0\<rparr>
       | Inr sd_rec \<Rightarrow>
           frame_loop demo_explorer (Some demo_nusc) demo_files 3 30 sd_rec
             (''OBJ File:'' @ newline) 0)
   \<and> \<not> is_assertion (KeyError ''missing'')" by simp
  from 1 2 show ?thesis by blast
qed


lemma export_form:
  assumes "export_scene_pointcloud ex g fs scene_token channel min_dist max_dist = Some out"
    and "out_file out = Some txt"
  shows "\<exists>pts. txt = ''OBJ File:'' @ newline @
    concat (map (\<lambda>(v, px). vertex_line v (rgb_to_float px)) pts)"
proof -
  from assms obtain sd_rec where
    l: "frame_loop ex g fs min_dist max_dist sd_rec (''OBJ File:'' @ newline) 0 = Some out"
    by (auto simp: export_scene_pointcloud_def split: if_splits sum.splits)
  have "\<exists>pts. ''OBJ File:'' @ newline =
      (''OBJ File:'' @ newline) @ concat (map (\<lambda>(v, px). vertex_line v (rgb_to_float px)) pts)"
    by (rule exI [of _ "[]"]) simp
  with frame_loop_form [OF l, of "''OBJ File:'' @ newline"] assms(2) show ?thesis by auto
qed

lemma format_f_places:
  "\<exists>s ds. format_f (Suc d) q = s @ ''.'' @ ds \<and> length ds = Suc d \<and>
     set ds \<subseteq> set ''0123456789'' \<and> CHR ''.'' \<notin> set s"
proof -
  let ?n = "nat (np_round (\<bar>q\<bar> * 10 ^ Suc d))"
  let ?s = "(if q < 0 then ''-'' else []) @ str_nat (?n div 10 ^ Suc d)"
  let ?ds = "frac_digits (Suc d) (?n mod 10 ^ Suc d)"
  have 1: "format_f (Suc d) q = ?s @ ''.'' @ ?ds" by (simp add: format_f_def Let_def)
  have 2: "length ?ds = Suc d" by simp
  have 3: "set ?ds \<subseteq> set ''0123456789''" by (rule frac_digits_digits)
  have "CHR ''.'' \<notin> set (str_nat (?n div 10 ^ Suc d))"
    using str_nat_digits [of "?n div 10 ^ Suc d"] by auto
  then have 4: "CHR ''.'' \<notin> set ?s" by simp
  from 1 2 3 4 show ?thesis by blast
qed

lemma format_f_no_newline: "CHR 0x0A \<notin> set (format_f d q)"
  using format_f_chars [of d q] by auto


lemma process_frame_emitted:
  "process_frame ex g fs min_dist max_dist sd_rec =
     bindE (emitted_points ex g fs min_dist max_dist sd_rec)
       (\<lambda>pts. Inr (concat (map (\<lambda>(v, c). vertex_line v c) pts)))"
proof (cases "get_sample (nusc ex) (sample_token sd_rec)")
  case (Inl e)
  then show ?thesis by (simp add: process_frame_def emitted_points_def)
next
  case s: (Inr sample)
  show ?thesis
  proof (cases "get_sample_data (nusc ex) (token sd_rec)")
    case (Inl e)
    with s show ?thesis by (simp add: process_frame_def emitted_points_def)
  next
    case l: (Inr lidar_rec)
    show ?thesis
    proof (cases "from_file fs (osp_join (dataroot (nusc ex)) (filename lidar_rec))")
      case (Inl e)
      with s l show ?thesis by (simp add: process_frame_def emitted_points_def)
    next
      case f: (Inr pc)
      show ?thesis
      proof (cases "color_from_cameras g fs sample (token sd_rec) camera_channels
          (replicate (length pc) no_color)")
        case (Inl e)
        with s l f show ?thesis by (simp add: process_frame_def emitted_points_def)
      next
        case c: (Inr coloring)
        show ?thesis
        proof (cases "get_calibrated_sensor (nusc ex) (calibrated_sensor_token lidar_rec)")
          case (Inl e)
          with s l f c show ?thesis by (simp add: process_frame_def emitted_points_def)
        next
          case cs: (Inr cs_record)
          show ?thesis
          proof (cases "get_ego_pose (nusc ex) (ego_pose_token lidar_rec)")
            case (Inl e)
            with s l f c cs show ?thesis
              by (simp add: process_frame_def emitted_points_def Let_def)
          next
            case ep: (Inr poserecord)
            let ?P = "\<lambda>(p, c). min_dist \<le> dist_origin (to_ego cs_record (xyz p)) \<and>
                dist_origin (to_ego cs_record (xyz p)) \<le> max_dist \<and> \<not> any_minus_one c"
            let ?G = "\<lambda>(p, c). (to_global poserecord (to_ego cs_record (xyz p)), c)"
            let ?L = "\<lambda>(v, c). vertex_line v c"
            have e: "emitted_points ex g fs min_dist max_dist sd_rec =
                Inr (map ?G (filter ?P (zip pc coloring)))"
              using s l f c cs ep by (simp add: emitted_points_def)
            have "concat (map ?L (map ?G (filter ?P (zip pc coloring)))) =
                concat (map (\<lambda>x. if ?P x then ?L (?G x) else []) (zip pc coloring))"
              by (rule concat_map_map_filter)
            also have "\<dots> = concat (map (\<lambda>(p, c).
                let e = vadd (mat_vec (rotation_matrix (cs_rotation cs_record)) (xyz p))
                          (cs_translation cs_record)
                in if min_dist \<le> dist_origin e \<and> dist_origin e \<le> max_dist \<and> \<not> any_minus_one c
                   then vertex_line
                          (vadd (mat_vec (rotation_matrix (ep_rotation poserecord)) e)
                             (ep_translation poserecord)) c
                   else []) (zip pc coloring))"
              by (rule arg_cong [where f = concat], rule map_cong)
                (auto simp: Let_def split_def to_ego_def to_global_def)
            finally show ?thesis
              unfolding process_frame_Inr [OF s l f c cs ep] e by simp
          qed
        qed
      qed
    qed
  qed
qed

lemma emitted_colors:
  assumes "emitted_points ex g fs min_dist max_dist sd_rec = Inr pts" and "(v, c) \<in> set pts"
  shows "\<exists>px. c = rgb_to_float px"
proof -
  have "\<exists>coloring sample tok m. c \<in> set coloring \<and> \<not> any_minus_one c \<and>
      color_from_cameras g fs sample tok camera_channels (replicate m no_color) = Inr coloring"
    using assms
    by (clarsimp simp: emitted_points_def bindE_eq_Inr) (blast dest: set_zip_rightD)
  then obtain coloring sample tok m where c: "c \<in> set coloring" and v: "\<not> any_minus_one c"
    and col: "color_from_cameras g fs sample tok camera_channels (replicate m no_color) =
      Inr coloring"
    by blast
  from color_from_cameras_colors [OF col c] v show ?thesis by auto
qed

lemma frames_emitted:
  "list_all2 (\<lambda>x pts. emitted_points ex g fs min_dist max_dist x = Inr pts) xs ptss \<Longrightarrow>
   concat (map (frame_text ex g fs min_dist max_dist) xs) =
     concat (map (\<lambda>(v, c). vertex_line v c) (concat ptss)) \<and>
   (\<forall>x \<in> set xs. \<exists>w. process_frame ex g fs min_dist max_dist x = Inr w)"
proof (induction rule: list_all2_induct)
  case Nil
  show ?case by simp
next
  case (Cons x xs pts ptss)
  from Cons(1) have "process_frame ex g fs min_dist max_dist x =
      Inr (concat (map (\<lambda>(v, c). vertex_line v c) pts))"
    by (simp add: process_frame_emitted)
  with Cons show ?case by (simp add: frame_text_Inr)
qed

lemma export_emitted:
  assumes "channel \<in> set valid_channels"
    and "first_sd_rec ex scene_token channel = Inr r"
    and "linked (nusc ex) r rs"
    and "sd_next (last (r # rs)) = []"
    and "list_all2 (\<lambda>x pts. emitted_points ex g fs min_dist max_dist x = Inr pts) (r # rs) ptss"
  shows "export_scene_pointcloud ex g fs scene_token channel min_dist max_dist =
    Some \<lparr>raised = None,
          out_file = Some (''OBJ File:'' @ newline @
            concat (map (\<lambda>(v, c). vertex_line v c) (concat ptss))),
          frame_ind = length (r # rs)\<rparr>"
proof -
  from frames_emitted [OF assms(5)]
  have t: "concat (map (frame_text ex g fs min_dist max_dist) (r # rs)) =
      concat (map (\<lambda>(v, c). vertex_line v c) (concat ptss))"
    and ok: "\<forall>x \<in> set (r # rs). \<exists>w. process_frame ex g fs min_dist max_dist x = Inr w"
    by blast+
  from linked_frames [OF assms(3,4) ok, of "''OBJ File:'' @ newline" 0] t assms(1,2)
  show ?thesis by (simp add: export_scene_pointcloud_def)
qed

lemma vertex_line_one_line:
  "\<exists>body. vertex_line v c = body @ newline \<and> CHR 0x0A \<notin> set body"
proof -
  obtain x y z where v: "v = (x, y, z)" by (cases v)
  obtain r g' b where c: "c = (r, g', b)" by (cases c)
  let ?body = "''v '' @ format_f 8 x @ '' '' @ format_f 8 y @ '' '' @ format_f 8 z @ '' '' @
     format_f 4 (r / 255) @ '' '' @ format_f 4 (g' / 255) @ '' '' @ format_f 4 (b / 255)"
  have "vertex_line v c = ?body @ newline" by (simp add: v c)
  moreover have "CHR 0x0A \<notin> set ?body" using format_f_no_newline by simp
  ultimately show ?thesis by blast
qed

lemma demo_emitted:
  "emitted_points demo_explorer (Some demo_nusc) demo_files 3 30
     (demo_sd ''lidar0'' ''cloud.bin'' []) = Inr [((110, 210, 5), (128, 64, 32))]"
proof -
  have f: "from_file demo_files (osp_join ''root'' ''cloud.bin'') = Inr demo_cloud"
    by (simp add: demo_files_def from_file_def osp_join_def)
  have c: "color_from_cameras (Some demo_nusc) demo_files demo_sample ''lidar0'' camera_channels
      (replicate (length demo_cloud) no_color) = Inr [(128, 64, 32), no_color, (128, 64, 32)]"
    using demo_coloring by (simp add: demo_cloud_def numeral_3_eq_3)
  have e: "to_ego \<lparr>cs_rotation = (1, 0, 0, 0), cs_translation = (0, 0, 0),
       camera_intrinsic = Some ((1, 0, 0), (0, 1, 0), (0, 0, 1))\<rparr> p = p" for p
    by (cases p) (simp add: to_ego_def)
  have "emitted_points demo_explorer (Some demo_nusc) demo_files 3 30
     (demo_sd ''lidar0'' ''cloud.bin'' []) =
     Inr (map (\<lambda>(p, c). (to_global \<lparr>ep_rotation = (1, 0, 0, 0),
                 ep_translation = (100, 200, 0)\<rparr> (xyz p), c))
           (filter (\<lambda>(p, c). 3 \<le> dist_origin (xyz p) \<and> dist_origin (xyz p) \<le> 30 \<and>
                      \<not> any_minus_one c)
              (zip demo_cloud [(128, 64, 32), no_color, (128, 64, 32)])))"
    by (simp add: emitted_points_def demo_explorer_def demo_records demo_sample_data
        demo_sd_fields f c e del: dist_origin.simps)
  then show ?thesis
    by (simp add: demo_cloud_def demo_dists to_global_def no_color_def del: dist_origin.simps)
qed

text \<open>
  C8. The file begins with the line \<^verbatim>\<open>OBJ File:\<close>, followed by one line for each
  point emitted, in the order of the frames and of the points in a frame, of the form
  \<^verbatim>\<open>v x y z r g b\<close>: the three coordinates of the point in the global frame with 8
  decimal places and the three channel values of its pixel, divided by 255, with 4
  decimal places. The colour fields lie between 0 and 1, and the pixel (128, 64, 32) gives
  the fields 0.5020, 0.2510 and 0.1255. No field holds a line break, so each point has a
  line of its own.
\<close>

theorem obj_file_format:
  "process_frame ex g fs min_dist max_dist sd_rec =
     bindE (emitted_points ex g fs min_dist max_dist sd_rec)
       (\<lambda>pts. Inr (concat (map (\<lambda>(v, c). vertex_line v c) pts)))
   \<and> (emitted_points ex g fs min_dist max_dist sd_rec = Inr pts \<and> (v, c) \<in> set pts \<longrightarrow>
        (\<exists>px. c = rgb_to_float px))
   \<and> (channel \<in> set valid_channels \<and> first_sd_rec ex scene_token channel = Inr r' \<and>
       linked (nusc ex) r' rs \<and> sd_next (last (r' # rs)) = [] \<and>
       list_all2 (\<lambda>x pts. emitted_points ex g fs min_dist max_dist x = Inr pts) (r' # rs) ptss \<longrightarrow>
       export_scene_pointcloud ex g fs scene_token channel min_dist max_dist =
         Some \<lparr>raised = None,
               out_file = Some (''OBJ File:'' @ newline @
                 concat (map (\<lambda>(v, c). vertex_line v c) (concat ptss))),
               frame_ind = length (r' # rs)\<rparr>)
   \<and> (\<exists>body. vertex_line v c = body @ newline \<and> CHR 0x0A \<notin> set body)
   \<and> (export_scene_pointcloud ex g fs scene_token channel min_dist max_dist = Some out \<and>
    out_file out = Some txt \<longrightarrow>
      (\<exists>pts. txt = ''OBJ File:'' @ newline @
         concat (map (\<lambda>(v, px). vertex_line v (rgb_to_float px)) pts)))
   \<and> vertex_line (x, y, z) (rgb_to_float (r, g', b)) =
       ''v '' @ format_f 8 x @ '' '' @ format_f 8 y @ '' '' @ format_f 8 z @ '' '' @
       format_f 4 (real (unat r) / 255) @ '' '' @ format_f 4 (real (unat g') / 255) @ '' '' @
       format_f 4 (real (unat b) / 255) @ newline
   \<and> 0 \<le> real (unat r) / 255 \<and> real (unat r) / 255 \<le> 1
   \<and> (\<exists>s ds. format_f (Suc d) q = s @ ''.'' @ ds \<and> length ds = Suc d \<and>
         set ds \<subseteq> set ''0123456789'' \<and> CHR ''.'' \<notin> set s)
   \<and> CHR 0x0A \<notin> set (format_f d q) \<and> newline = [CHR 0x0A]
   \<and> vertex_line (x, y, z) (rgb_to_float (128, 64, 32)) =
       ''v '' @ format_f 8 x @ '' '' @ format_f 8 y @ '' '' @ format_f 8 z @
       '' 0.5020 0.2510 0.1255'' @ newline"
proof (intro conjI)
  show "process_frame ex g fs min_dist max_dist sd_rec =
     bindE (emitted_points ex g fs min_dist max_dist sd_rec)
       (\<lambda>pts. Inr (concat (map (\<lambda>(v, c). vertex_line v c) pts)))"
    by (rule process_frame_emitted)
  show "emitted_points ex g fs min_dist max_dist sd_rec = Inr pts \<and> (v, c) \<in> set pts \<longrightarrow>
        (\<exists>px. c = rgb_to_float px)"
    using emitted_colors by blast
  show "channel \<in> set valid_channels \<and> first_sd_rec ex scene_token channel = Inr r' \<and>
       linked (nusc ex) r' rs \<and> sd_next (last (r' # rs)) = [] \<and>
       list_all2 (\<lambda>x pts. emitted_points ex g fs min_dist max_dist x = Inr pts) (r' # rs) ptss \<longrightarrow>
       export_scene_pointcloud ex g fs scene_token channel min_dist max_dist =
         Some \<lparr>raised = None,
               out_file = Some (''OBJ File:'' @ newline @
                 concat (map (\<lambda>(v, c). vertex_line v c) (concat ptss))),
               frame_ind = length (r' # rs)\<rparr>"
    using export_emitted by blast
  show "\<exists>body. vertex_line v c = body @ newline \<and> CHR 0x0A \<notin> set body"
    by (rule vertex_line_one_line)
  show "export_scene_pointcloud ex g fs scene_token channel min_dist max_dist = Some out \<and>
    out_file out = Some txt \<longrightarrow>
      (\<exists>pts. txt = ''OBJ File:'' @ newline @
         concat (map (\<lambda>(v, px). vertex_line v (rgb_to_float px)) pts))"
    using export_form by blast
  show "vertex_line (x, y, z) (rgb_to_float (r, g', b)) =
       ''v '' @ format_f 8 x @ '' '' @ format_f 8 y @ '' '' @ format_f 8 z @ '' '' @
       format_f 4 (real (unat r) / 255) @ '' '' @ format_f 4 (real (unat g') / 255) @ '' '' @
       format_f 4 (real (unat b) / 255) @ newline"
    by simp
  show "0 \<le> real (unat r) / 255" using real_unat_bounds [of r] by simp
  show "real (unat r) / 255 \<le> 1" using real_unat_bounds [of r] by simp
  show "\<exists>s ds. format_f (Suc d) q = s @ ''.'' @ ds \<and> length ds = Suc d \<and>
         set ds \<subseteq> set ''0123456789'' \<and> CHR ''.'' \<notin> set s"
    by (rule format_f_places)
  show "CHR 0x0A \<notin> set (format_f d q)" by (rule format_f_no_newline)
  show "newline = [CHR 0x0A]" by (rule newline_def)
  have c: "format_f 4 (128 / 255) = ''0.5020''" "format_f 4 (64 / 255) = ''0.2510''"
    "format_f 4 (32 / 255) = ''0.1255''"
    by (simp_all add: format_defs)
  show "vertex_line (x, y, z) (rgb_to_float (128, 64, 32)) =
       ''v '' @ format_f 8 x @ '' '' @ format_f 8 y @ '' '' @ format_f 8 z @
       '' 0.5020 0.2510 0.1255'' @ newline"
    by (simp add: c)
qed

theorem obj_file_format_witness:
  "(\<exists>px. ((128, 64, 32) :: color) = rgb_to_float px)
   \<and> export_scene_pointcloud demo_explorer (Some demo_nusc) demo_files ''scene0'' ''LIDAR_TOP''
       3 30 =
       Some \<lparr>raised = None,
             out_file = Some (''OBJ File:'' @ newline @
               concat (map (\<lambda>(v, c). vertex_line v c) (concat [[((110, 210, 5), (128, 64, 32))]]))),
             frame_ind = length [demo_sd ''lidar0'' ''cloud.bin'' []]\<rparr>
   \<and> (\<exists>pts. ''OBJ File:'' @ newline @
         ''v 110.00000000 210.00000000 5.00000000 0.5020 0.2510 0.1255'' @ newline =
       ''OBJ File:'' @ newline @ concat (map (\<lambda>(v, px). vertex_line v (rgb_to_float px)) pts))"
proof -
  have v: "''LIDAR_TOP'' \<in> set valid_channels" by (simp add: valid_channels_def)
  have l: "linked (nusc demo_explorer) (demo_sd ''lidar0'' ''cloud.bin'' []) []" by simp
  have n: "sd_next (last [demo_sd ''lidar0'' ''cloud.bin'' []]) = []"
    by (simp add: demo_sd_fields)
  have a: "list_all2 (\<lambda>x pts. emitted_points demo_explorer (Some demo_nusc) demo_files 3 30 x = Inr pts)
      [demo_sd ''lidar0'' ''cloud.bin'' []] [[((110, 210, 5), (128, 64, 32))]]"
    by (simp add: demo_emitted)
  have m: "((110, 210, 5), (128, 64, 32)) \<in> set [((110, 210, 5), ((128, 64, 32) :: color))]"
    by simp
  have o: "out_file \<lparr>raised = None,
       out_file = Some (''OBJ File:'' @ newline @
         ''v 110.00000000 210.00000000 5.00000000 0.5020 0.2510 0.1255'' @ newline),
       frame_ind = 1\<rparr> = Some (''OBJ File:'' @ newline @
         ''v 110.00000000 210.00000000 5.00000000 0.5020 0.2510 0.1255'' @ newline)"
    by simp
  from obj_file_format [of demo_explorer "Some demo_nusc" demo_files 3 30
      "demo_sd ''lidar0'' ''cloud.bin'' []" "[((110, 210, 5), (128, 64, 32))]"
      "(110, 210, 5)" "(128, 64, 32)" "''LIDAR_TOP''" "''scene0''"
      "demo_sd ''lidar0'' ''cloud.bin'' []" "[]" "[[((110, 210, 5), (128, 64, 32))]]"
      "\<lparr>raised = None,
       out_file = Some (''OBJ File:'' @ newline @
         ''v 110.00000000 210.00000000 5.00000000 0.5020 0.2510 0.1255'' @ newline),
       frame_ind = 1\<rparr>" "''OBJ File:'' @ newline @
         ''v 110.00000000 210.00000000 5.00000000 0.5020 0.2510 0.1255'' @ newline"]
    demo_emitted v demo_first(1) l n a m o demo_export
  show ?thesis by blast
qed

lemma color_points_no_index_error:
  assumes "size_w im \<le> 2 ^ 31" and "size_h im \<le> 2 ^ 31"
  shows "color_points im cs_src ego_src ego_dst cs_dst pc0 \<noteq> Inl IndexError"
proof (cases "camera_intrinsic cs_dst")
  case None
  then show ?thesis by (simp add: color_points_def Let_def intrinsic_def)
next
  case (Some K)
  from color_points_Inr [OF Some assms] show ?thesis by simp
qed

text \<open>
  C9. For a point that the mask selects, rounding \<open>u\<close> and \<open>v\<close> to the nearest
  integer gives a column between 0 and the width minus 1 and a row between 0 and the height
  minus 1, so the read of the pixel is inside the array and gives the pixel at that row and
  column; \<^verbatim>\<open>pointcloud_color_from_image\<close> never raises IndexError on an image whose
  sides fit 32 bits.
\<close>

theorem rounded_pixel_in_bounds:
  "(in_picture im depth (u, v, w) \<longrightarrow>
      0 \<le> np_round u \<and> np_round u \<le> int (size_w im) - 1 \<and>
      0 \<le> np_round v \<and> np_round v \<le> int (size_h im) - 1 \<and>
      (size_w im \<le> 2 ^ 31 \<and> size_h im \<le> 2 ^ 31 \<longrightarrow>
         im_data im (astype_int32 (np_round v)) (astype_int32 (np_round u)) =
           Inr (pix im (nat (np_round v)) (nat (np_round u))) \<and>
         pick_color im (u, v, w) = Inr (nearest_pixel im (u, v, w))))
   \<and> (size_w im \<le> 2 ^ 31 \<and> size_h im \<le> 2 ^ 31 \<longrightarrow>
        color_points im cs_src ego_src ego_dst cs_dst pc0 \<noteq> Inl IndexError)"
proof (intro conjI impI)
  assume p: "in_picture im depth (u, v, w)"
  then have bu: "1 \<le> np_round u \<and> np_round u \<le> int (size_w im) - 1"
    using np_round_bounds [of u "int (size_w im)"] by simp
  from p have bv: "1 \<le> np_round v \<and> np_round v \<le> int (size_h im) - 1"
    using np_round_bounds [of v "int (size_h im)"] by simp
  from bu show "0 \<le> np_round u" "np_round u \<le> int (size_w im) - 1" by simp_all
  from bv show "0 \<le> np_round v" "np_round v \<le> int (size_h im) - 1" by simp_all
  assume s: "size_w im \<le> 2 ^ 31 \<and> size_h im \<le> 2 ^ 31"
  then have s1: "size_w im \<le> 2 ^ 31" and s2: "size_h im \<le> 2 ^ 31" by simp_all
  from pick_color_in_picture [OF p s1 s2]
  show pc: "pick_color im (u, v, w) = Inr (nearest_pixel im (u, v, w))" .
  from s1 have "int (size_w im) \<le> 2 ^ 31" by (metis of_nat_le_iff of_nat_numeral of_nat_power)
  with bu have au: "astype_int32 (np_round u) = np_round u" by (simp add: astype_int32_def)
  from s2 have "int (size_h im) \<le> 2 ^ 31" by (metis of_nat_le_iff of_nat_numeral of_nat_power)
  with bv have av: "astype_int32 (np_round v) = np_round v" by (simp add: astype_int32_def)
  show "im_data im (astype_int32 (np_round v)) (astype_int32 (np_round u)) =
           Inr (pix im (nat (np_round v)) (nat (np_round u)))"
    using bu bv by (simp add: au av im_data_def np_index_def)
next
  assume "size_w im \<le> 2 ^ 31 \<and> size_h im \<le> 2 ^ 31"
  then show "color_points im cs_src ego_src ego_dst cs_dst pc0 \<noteq> Inl IndexError"
    using color_points_no_index_error by blast
qed

theorem rounded_pixel_in_bounds_witness:
  "(0 \<le> np_round 2 \<and> np_round 2 \<le> int (size_w (plain_image 4 (128, 64, 32))) - 1 \<and>
    0 \<le> np_round 2 \<and> np_round 2 \<le> int (size_h (plain_image 4 (128, 64, 32))) - 1 \<and>
    im_data (plain_image 4 (128, 64, 32)) (astype_int32 (np_round 2)) (astype_int32 (np_round 2)) =
      Inr (pix (plain_image 4 (128, 64, 32)) (nat (np_round 2)) (nat (np_round 2))) \<and>
    pick_color (plain_image 4 (128, 64, 32)) (2, 2, 1) =
      Inr (nearest_pixel (plain_image 4 (128, 64, 32)) (2, 2, 1)))
   \<and> color_points (plain_image 4 (128, 64, 32))
     \<lparr>cs_rotation = (1, 0, 0, 0), cs_translation = (0, 0, 0),
       camera_intrinsic = Some ((1, 0, 0), (0, 1, 0), (0, 0, 1))\<rparr>
     \<lparr>ep_rotation = (1, 0, 0, 0), ep_translation = (100, 200, 0)\<rparr>
     \<lparr>ep_rotation = (1, 0, 0, 0), ep_translation = (100, 200, 0)\<rparr>
     \<lparr>cs_rotation = (1, 0, 0, 0), cs_translation = (0, 0, 0),
       camera_intrinsic = Some ((1, 0, 0), (0, 1, 0), (0, 0, 1))\<rparr>
     demo_cloud \<noteq> Inl IndexError"
proof -
  have p: "in_picture (plain_image 4 (128, 64, 32)) 5 (2, 2, 1)"
    by (simp add: plain_image_def)
  have s: "size_w (plain_image 4 (128, 64, 32)) \<le> 2 ^ 31 \<and>
      size_h (plain_image 4 (128, 64, 32)) \<le> 2 ^ 31"
    by (simp add: plain_image_def)
  from rounded_pixel_in_bounds [of "plain_image 4 (128, 64, 32)" 5 2 2 1
      "\<lparr>cs_rotation = (1, 0, 0, 0), cs_translation = (0, 0, 0),
       camera_intrinsic = Some ((1, 0, 0), (0, 1, 0), (0, 0, 1))\<rparr>"
      "\<lparr>ep_rotation = (1, 0, 0, 0), ep_translation = (100, 200, 0)\<rparr>"
      "\<lparr>ep_rotation = (1, 0, 0, 0), ep_translation = (100, 200, 0)\<rparr>"
      "\<lparr>cs_rotation = (1, 0, 0, 0), cs_translation = (0, 0, 0),
       camera_intrinsic = Some ((1, 0, 0), (0, 1, 0), (0, 0, 1))\<rparr>" demo_cloud] p s
  show ?thesis by blast
qed


lemma camera_view_unbound:
  "\<exists>e. camera_view None fs sample tok ch = Inl e"
  by (cases "lookup (data sample) ch") (simp_all add: camera_view_def global_nusc_def)

lemma color_from_cameras_unbound:
  "\<exists>e. color_from_cameras None fs sample tok camera_channels col = Inl e"
proof -
  obtain e where "camera_view None fs sample tok ''CAM_FRONT_LEFT'' = Inl e"
    using camera_view_unbound by blast
  then show ?thesis by (simp add: camera_channels_def)
qed

lemma process_frame_unbound:
  "\<exists>e. process_frame ex None fs min_dist max_dist sd_rec = Inl e"
proof (cases "get_sample (nusc ex) (sample_token sd_rec)")
  case (Inl e)
  then show ?thesis by (simp add: process_frame_def)
next
  case s: (Inr sample)
  show ?thesis
  proof (cases "get_sample_data (nusc ex) (token sd_rec)")
    case (Inl e)
    with s show ?thesis by (simp add: process_frame_def)
  next
    case l: (Inr lidar_rec)
    show ?thesis
    proof (cases "from_file fs (osp_join (dataroot (nusc ex)) (filename lidar_rec))")
      case (Inl e)
      with s l show ?thesis by (simp add: process_frame_def)
    next
      case (Inr pc)
      obtain e where "color_from_cameras None fs sample (token sd_rec) camera_channels
          (replicate (length pc) no_color) = Inl e"
        using color_from_cameras_unbound by blast
      with s l Inr show ?thesis by (simp add: process_frame_def)
    qed
  qed
qed

lemma process_frame_name_error:
  assumes "get_sample (nusc ex) (sample_token sd_rec) = Inr sample"
    and "get_sample_data (nusc ex) (token sd_rec) = Inr lidar_rec"
    and "from_file fs (osp_join (dataroot (nusc ex)) (filename lidar_rec)) = Inr pc"
    and "data sample ''CAM_FRONT_LEFT'' = Some camera_token"
  shows "process_frame ex None fs min_dist max_dist sd_rec = Inl (NameError ''nusc'')"
  using assms
  by (simp add: process_frame_def camera_channels_def camera_view_def lookup_def global_nusc_def)

lemma export_unbound:
  "\<exists>out e. export_scene_pointcloud ex None fs scene_token channel min_dist max_dist = Some out \<and>
     raised out = Some e \<and> frame_ind out = 0"
proof (cases "channel \<in> set valid_channels")
  case False
  then show ?thesis by (simp add: export_scene_pointcloud_def)
next
  case True
  show ?thesis
  proof (cases "first_sd_rec ex scene_token channel")
    case (Inl e)
    with True show ?thesis by (simp add: export_scene_pointcloud_def)
  next
    case (Inr sd_rec)
    obtain e where "process_frame ex None fs min_dist max_dist sd_rec = Inl e"
      using process_frame_unbound by blast
    with True Inr show ?thesis
      by (simp add: export_scene_pointcloud_def frame_loop.simps)
  qed
qed

text \<open>
  C10. The colours of a frame are computed from the record store bound to the global name
  \<^verbatim>\<open>nusc\<close> of the module, not from the explorer that is passed: two calls with the
  same arguments and different bindings of the global give different files. When the
  global is unbound, no call ends without an error or counts a frame, and a call that
  reaches the first camera of the first frame raises NameError there, with only the
  header in the file.
\<close>

theorem global_nusc_dependence:
  "export_scene_pointcloud demo_explorer (Some demo_nusc) demo_files ''scene0'' ''LIDAR_TOP'' 3 30
     \<noteq> export_scene_pointcloud demo_explorer (Some alt_nusc) demo_files ''scene0'' ''LIDAR_TOP'' 3 30
   \<and> (\<exists>out e. export_scene_pointcloud ex None fs scene_token channel min_dist max_dist = Some out \<and>
         raised out = Some e \<and> frame_ind out = 0)
   \<and> (channel \<in> set valid_channels \<and>
       first_sd_rec ex scene_token channel = Inr sd_rec \<and>
       get_sample (nusc ex) (sample_token sd_rec) = Inr sample \<and>
       get_sample_data (nusc ex) (token sd_rec) = Inr lidar_rec \<and>
       from_file fs (osp_join (dataroot (nusc ex)) (filename lidar_rec)) = Inr pc \<and>
       data sample ''CAM_FRONT_LEFT'' = Some camera_token \<longrightarrow>
       export_scene_pointcloud ex None fs scene_token channel min_dist max_dist =
         Some \<lparr>raised = Some (NameError ''nusc''), out_file = Some (''OBJ File:'' @ newline),
               frame_ind = 0\<rparr>)"
proof (intro conjI impI)
  have "''v 110.00000000 210.00000000 5.00000000 0.5020 0.2510 0.1255'' \<noteq>
      ''v 110.00000000 210.00000000 5.00000000 1.0000 0.0000 0.0000''"
    by simp
  then show "export_scene_pointcloud demo_explorer (Some demo_nusc) demo_files ''scene0''
        ''LIDAR_TOP'' 3 30
     \<noteq> export_scene_pointcloud demo_explorer (Some alt_nusc) demo_files ''scene0'' ''LIDAR_TOP'' 3 30"
    unfolding demo_export alt_export by simp
next
  show "\<exists>out e. export_scene_pointcloud ex None fs scene_token channel min_dist max_dist = Some out \<and>
         raised out = Some e \<and> frame_ind out = 0"
    by (rule export_unbound)
next
  assume a: "channel \<in> set valid_channels \<and>
       first_sd_rec ex scene_token channel = Inr sd_rec \<and>
       get_sample (nusc ex) (sample_token sd_rec) = Inr sample \<and>
       get_sample_data (nusc ex) (token sd_rec) = Inr lidar_rec \<and>
       from_file fs (osp_join (dataroot (nusc ex)) (filename lidar_rec)) = Inr pc \<and>
       data sample ''CAM_FRONT_LEFT'' = Some camera_token"
  then have "process_frame ex None fs min_dist max_dist sd_rec = Inl (NameError ''nusc'')"
    using process_frame_name_error by blast
  with a show "export_scene_pointcloud ex None fs scene_token channel min_dist max_dist =
         Some \<lparr>raised = Some (NameError ''nusc''), out_file = Some (''OBJ File:'' @ newline),
               frame_ind = 0\<rparr>"
    by (simp add: export_scene_pointcloud_def frame_loop.simps)
qed

theorem global_nusc_dependence_witness:
  "export_scene_pointcloud demo_explorer None demo_files ''scene0'' ''LIDAR_TOP'' 3 30 =
     Some \<lparr>raised = Some (NameError ''nusc''), out_file = Some (''OBJ File:'' @ newline),
           frame_ind = 0\<rparr>"
proof -
  have v: "''LIDAR_TOP'' \<in> set valid_channels" by (simp add: valid_channels_def)
  have s: "get_sample (nusc demo_explorer) (sample_token (demo_sd ''lidar0'' ''cloud.bin'' [])) =
      Inr demo_sample"
    by (simp add: demo_explorer_def demo_records demo_sd_fields)
  have l: "get_sample_data (nusc demo_explorer) (token (demo_sd ''lidar0'' ''cloud.bin'' [])) =
      Inr (demo_sd ''lidar0'' ''cloud.bin'' [])"
    by (simp add: demo_explorer_def demo_sample_data demo_sd_fields)
  have f: "from_file demo_files (osp_join (dataroot (nusc demo_explorer))
      (filename (demo_sd ''lidar0'' ''cloud.bin'' []))) = Inr demo_cloud"
    by (simp add: demo_explorer_def demo_nusc_def demo_sd_def demo_files_def fetch_defs)
  have c: "data demo_sample ''CAM_FRONT_LEFT'' = Some ''blind''"
    by (simp add: demo_sample_def)
  from global_nusc_dependence [of demo_explorer demo_files "''scene0''" "''LIDAR_TOP''" 3 30
      "demo_sd ''lidar0'' ''cloud.bin'' []" demo_sample "demo_sd ''lidar0'' ''cloud.bin'' []"
      demo_cloud "''blind''"]
    v demo_first(1) s l f c
  show ?thesis by blast
qed

end
